theory Spec2Isabelle
  imports Main
begin

section \<open>Apex Capital: deposit confirmation and ledger crediting\<close>

text \<open>
  A shallow embedding of the Netlify functions \<^verbatim>\<open>deposit-webhook.js\<close>,
  \<^verbatim>\<open>admin-transaction-update.js\<close>, \<^verbatim>\<open>ledger-transaction-create.js\<close>,
  \<^verbatim>\<open>admin-balance-adjust.js\<close>, \<^verbatim>\<open>_admin-guard.js\<close>, \<^verbatim>\<open>_db.js\<close> and
  \<^verbatim>\<open>auth-user.js\<close>.

  Conventions of the embedding.
  \<^item> A JavaScript exception is a value: every fallible step returns \<open>exn + 'a\<close>,
    \<open>Inl\<close> being the thrown error. A handler whose result is \<open>Inl e\<close> has let the
    exception escape (the platform answers with a server error).
  \<^item> The Supabase tables are an explicit store that every call takes and returns.
    A REST call can fail for reasons outside the program (a non-2xx answer makes
    \<^verbatim>\<open>supabase()\<close> throw); the argument \<open>down\<close> says, per request, which calls do.
  \<^item> Amounts are integers in the smallest unit of the asset (the data model is
    fixed-point); IEEE rounding is not modelled. A nullable column or an optional JSON
    field is an \<open>option\<close>.
  \<^item> Library functions that are not code of the repository (HMAC-SHA256,
    \<^verbatim>\<open>JSON.parse\<close>, the clock) are parameters.
\<close>

subsection \<open>Exceptions, responses, the store\<close>

datatype exn =
    RangeError            \<comment> \<open>\<^verbatim>\<open>crypto.timingSafeEqual\<close> on buffers of different byte length\<close>
  | TypeError             \<comment> \<open>property read on \<^verbatim>\<open>null\<close>/\<^verbatim>\<open>undefined\<close>, bad argument type\<close>
  | SyntaxError           \<comment> \<open>\<^verbatim>\<open>JSON.parse\<close> on text that is not JSON\<close>
  | InsufficientBalance   \<comment> \<open>Supabase error whose message includes 'Insufficient balance'\<close>
  | StoreFailure          \<comment> \<open>any other non-2xx answer of Supabase\<close>

datatype resp_body =
    Plain string                      \<comment> \<open>a plain-text body\<close>
  | Received                          \<comment> \<open>\<^verbatim>\<open>{ received: true }\<close>\<close>
  | ReceivedError exn                 \<comment> \<open>\<^verbatim>\<open>{ received: true, error: err.message }\<close>\<close>
  | JsonOk                            \<comment> \<open>\<^verbatim>\<open>{ ok: true, ... }\<close>\<close>
  | JsonUpdated string string bool    \<comment> \<open>\<^verbatim>\<open>{ ok: true, updated, prev_status, new_status, refunded }\<close>\<close>
  | JsonError string                  \<comment> \<open>\<^verbatim>\<open>{ ok: false, error: msg }\<close>\<close>
  | JsonThrown exn                    \<comment> \<open>\<^verbatim>\<open>{ ok: false, error: err.message }\<close>\<close>
  | JsonFalse                         \<comment> \<open>\<^verbatim>\<open>{ ok: false }\<close>\<close>

record response =
  statusCode :: nat
  body :: resp_body

record charge =
  c_id :: nat
  c_coinbase_charge_id :: string
  c_coinbase_charge_code :: string
  c_user_id :: nat
  c_asset :: string
  c_amount_usd :: int
  c_crypto_amount :: "int option"
  c_status :: string
  c_confirmations :: int
  c_confirm_threshold :: int
  c_credited :: bool
  c_network_tx :: "string option"
  c_transaction_id :: "nat option"
  c_updated_at :: string

record transaction =
  t_id :: nat
  t_user_id :: nat
  t_type :: string
  t_asset :: string
  t_amount :: int
  t_usd_value :: "int option"
  t_fee_amount :: "int option"
  t_fee_usd :: "int option"
  t_status :: string
  t_tx_hash :: "string option"
  t_network :: "string option"
  t_address :: "string option"
  t_notes :: "string option"
  t_updated_at :: string

record audit_row =
  a_user_id :: "nat option"
  a_action :: string
  a_ip_address :: string
  a_user_agent :: string
  a_created_at :: string

record user =
  u_id :: nat
  u_auth0_sub :: string
  u_email :: string
  u_name :: "string option"
  u_kyc_status :: "string option"

record store =
  users :: "user list"
  deposit_charges :: "charge list"
  balances :: "nat \<times> string \<Rightarrow> int option"
  transactions :: "transaction list"
  audit_log :: "audit_row list"

text \<open>The REST calls the handlers make, as the fault argument names them.\<close>

datatype call =
    GetDepositCharges | PatchDepositCharges | RpcUpsertBalance | PostTransactions
  | GetTransactions | PatchTransactions | GetUsers | PostAuditLog | GetBalances

type_synonym 'a io = "store \<Rightarrow> (exn + 'a) \<times> store"

definition ret :: "'a \<Rightarrow> 'a io" where
  "ret a s = (Inr a, s)"

definition throw :: "exn \<Rightarrow> 'a io" where
  "throw e s = (Inl e, s)"

text \<open>\<^verbatim>\<open>await m; f\<close>: an exception of \<open>m\<close> skips \<open>f\<close>; the store keeps what \<open>m\<close> wrote.\<close>

definition andThen :: "'a io \<Rightarrow> ('a \<Rightarrow> 'b io) \<Rightarrow> 'b io" where
  "andThen m f s = (case m s of (Inl e, s') \<Rightarrow> (Inl e, s') | (Inr a, s') \<Rightarrow> f a s')"

text \<open>\<^verbatim>\<open>try { m } catch (err) { h(err) }\<close>.\<close>

definition tryCatch :: "'a io \<Rightarrow> (exn \<Rightarrow> 'a io) \<Rightarrow> 'a io" where
  "tryCatch m h s = (case m s of (Inl e, s') \<Rightarrow> h e s' | (Inr a, s') \<Rightarrow> (Inr a, s'))"

subsection \<open>The Balance Store primitive\<close>

text \<open>
  Modelled from the spec: the Postgres function \<^verbatim>\<open>upsert_balance\<close> is not among the
  sources (only its callers are). Section 4.1 of the specification: the row is created
  at amount 0 if absent, the amount becomes amount + delta, and the call fails with
  InsufficientFunds, changing nothing, if the amount after the delta would be negative.
\<close>

definition upsert_balance :: "nat \<Rightarrow> string \<Rightarrow> int \<Rightarrow> (nat \<times> string \<Rightarrow> int option) \<Rightarrow>
    exn + (int \<times> (nat \<times> string \<Rightarrow> int option))" where
  "upsert_balance p_user_id p_asset p_delta bal =
     (let amount = (case bal (p_user_id, p_asset) of None \<Rightarrow> 0 | Some a \<Rightarrow> a) in
      if amount + p_delta < 0 then Inl InsufficientBalance
      else Inr (amount + p_delta, bal((p_user_id, p_asset) \<mapsto> amount + p_delta)))"

text \<open>
  \<^verbatim>\<open>supabase.rpc('upsert_balance', { p_user_id, p_asset, p_delta })\<close>. The delta a caller
  passes can be \<^verbatim>\<open>null\<close> (\<open>None\<close>); the contract of the primitive is on numbers only, and
  the embedding lets such a call fail without a write.
\<close>

definition supabase_rpc_upsert_balance :: "(call \<Rightarrow> bool) \<Rightarrow> nat \<Rightarrow> string \<Rightarrow> int option \<Rightarrow> unit io" where
  "supabase_rpc_upsert_balance down p_user_id p_asset p_delta s =
     (if down RpcUpsertBalance then (Inl StoreFailure, s)
      else case p_delta of
        None \<Rightarrow> (Inl StoreFailure, s)
      | Some d \<Rightarrow>
         (case upsert_balance p_user_id p_asset d (balances s) of
            Inl e \<Rightarrow> (Inl e, s)
          | Inr (_, bal') \<Rightarrow> (Inr (), s\<lparr>balances := bal'\<rparr>)))"

subsection \<open>\<^verbatim>\<open>_db.js\<close>: REST wrappers and the audit logger\<close>

definition supabase_get_deposit_charges :: "(call \<Rightarrow> bool) \<Rightarrow> string \<Rightarrow> (charge list) io" where
  "supabase_get_deposit_charges down coinbase_id s =
     (if down GetDepositCharges then (Inl StoreFailure, s)
      else (Inr (filter (\<lambda>r. c_coinbase_charge_id r = coinbase_id) (deposit_charges s)), s))"

definition supabase_patch_deposit_charges :: "(call \<Rightarrow> bool) \<Rightarrow> nat \<Rightarrow> (charge \<Rightarrow> charge) \<Rightarrow> unit io" where
  "supabase_patch_deposit_charges down chargeId patch s =
     (if down PatchDepositCharges then (Inl StoreFailure, s)
      else (Inr (), s\<lparr>deposit_charges :=
              map (\<lambda>r. if c_id r = chargeId then patch r else r) (deposit_charges s)\<rparr>))"

text \<open>
  \<^verbatim>\<open>supabase.post('/rest/v1/transactions', row)\<close> answers with the inserted row; the
  database assigns its id (here one more than the number of rows so far).
\<close>

definition supabase_post_transactions :: "(call \<Rightarrow> bool) \<Rightarrow> transaction \<Rightarrow> transaction io" where
  "supabase_post_transactions down row s =
     (if down PostTransactions then (Inl StoreFailure, s)
      else (let tx = row\<lparr>t_id := Suc (length (transactions s))\<rparr>
            in (Inr tx, s\<lparr>transactions := transactions s @ [tx]\<rparr>)))"

text \<open>
  \<^verbatim>\<open>supabase.get('/rest/v1/users', `id=eq.${id}&select=...`)\<close> and the same by
  \<^verbatim>\<open>auth0_sub\<close>. The notification e-mail a handler sends to the rows it reads is
  fire-and-forget (\<^verbatim>\<open>.catch(() => {})\<close>) and writes nothing; it is not modelled.
\<close>

definition supabase_get_users_by_id :: "(call \<Rightarrow> bool) \<Rightarrow> nat \<Rightarrow> (user list) io" where
  "supabase_get_users_by_id down user_id s =
     (if down GetUsers then (Inl StoreFailure, s)
      else (Inr (filter (\<lambda>u. u_id u = user_id) (users s)), s))"

definition supabase_get_users_by_sub :: "(call \<Rightarrow> bool) \<Rightarrow> string \<Rightarrow> (user list) io" where
  "supabase_get_users_by_sub down sub s =
     (if down GetUsers then (Inl StoreFailure, s)
      else (Inr (filter (\<lambda>u. u_auth0_sub u = sub) (users s)), s))"

definition supabase_get_transactions :: "(call \<Rightarrow> bool) \<Rightarrow> nat \<Rightarrow> (transaction list) io" where
  "supabase_get_transactions down transactionId s =
     (if down GetTransactions then (Inl StoreFailure, s)
      else (Inr (filter (\<lambda>r. t_id r = transactionId) (transactions s)), s))"

definition supabase_patch_transactions :: "(call \<Rightarrow> bool) \<Rightarrow> nat \<Rightarrow> (transaction \<Rightarrow> transaction) \<Rightarrow> unit io" where
  "supabase_patch_transactions down transactionId patch s =
     (if down PatchTransactions then (Inl StoreFailure, s)
      else (Inr (), s\<lparr>transactions :=
              map (\<lambda>r. if t_id r = transactionId then patch r else r) (transactions s)\<rparr>))"


text \<open>
  \<^verbatim>\<open>auditLog\<close>: the insert is wrapped in \<^verbatim>\<open>try/catch\<close>; it never throws. The \<open>meta\<close>
  blob of the row is not modelled.
\<close>

definition auditLog :: "(call \<Rightarrow> bool) \<Rightarrow> string \<Rightarrow> nat option \<Rightarrow> string \<Rightarrow> string option \<Rightarrow> string option \<Rightarrow> unit io" where
  "auditLog down now userId action ip userAgent s =
     (if down PostAuditLog then (Inr (), s)
      else (Inr (), s\<lparr>audit_log := audit_log s @
              [\<lparr>a_user_id = userId, a_action = action,
                a_ip_address = (case ip of None \<Rightarrow> ''unknown'' | Some a \<Rightarrow> a),
                a_user_agent = (case userAgent of None \<Rightarrow> ''unknown'' | Some a \<Rightarrow> a),
                a_created_at = now\<rparr>]\<rparr>))"

subsection \<open>\<^verbatim>\<open>deposit-webhook.js\<close>\<close>

text \<open>
  The body of a provider event, after \<^verbatim>\<open>JSON.parse\<close>, in the shape of section 6 of the
  specification: every field may be absent, and a field that is present has the type of
  that shape (a payload of another shape is outside the embedding). \<open>p_crypto_amount\<close> is
  \<^verbatim>\<open>value?.crypto?.amount\<close> and \<open>p_confirmations\<close> is \<^verbatim>\<open>block?.confirmations\<close>, both as
  numbers, so that \<^verbatim>\<open>parseFloat\<close> and \<^verbatim>\<open>parseInt\<close> return them as they are.
\<close>

record payment =
  p_status :: "string option"
  p_transaction_id :: "string option"
  p_crypto_amount :: "int option"
  p_confirmations :: "int option"

record charge_data =
  d_id :: "string option"
  d_code :: "string option"
  d_payments :: "payment list option"

record provider_event =
  e_type :: "string option"
  e_data :: "charge_data option"

text \<open>
  What \<^verbatim>\<open>JSON.parse\<close> gives: a \<^verbatim>\<open>SyntaxError\<close>, the value \<^verbatim>\<open>null\<close>, or a value whose
  properties are read. For the webhook, the property \<^verbatim>\<open>event\<close> of that value is falsy
  (\<open>Json None\<close>) or an event.
\<close>

datatype 'a parsed_body = Unparsable | JsonNull | Json 'a

record webhook_env =
  WEBHOOK_SECRET :: "string option"
  hmac_sha256_hex :: "string \<Rightarrow> string \<Rightarrow> string"
  JSON_parse :: "string \<Rightarrow> provider_event option parsed_body"
  down :: "call \<Rightarrow> bool"
  now :: string

record webhook_request =
  httpMethod :: string
  x_cc_webhook_signature :: "string option"
  rawBody_opt :: "string option"

text \<open>
  \<^verbatim>\<open>crypto.timingSafeEqual(Buffer.from(a), Buffer.from(b))\<close>: throws when the byte
  lengths differ. A \<open>string\<close> is a list of bytes.
\<close>

definition timingSafeEqual :: "string \<Rightarrow> string \<Rightarrow> exn + bool" where
  "timingSafeEqual a b = (if length a \<noteq> length b then Inl RangeError else Inr (a = b))"

definition updateChargeStatus :: "(call \<Rightarrow> bool) \<Rightarrow> string \<Rightarrow> nat \<Rightarrow> string \<Rightarrow> (charge \<Rightarrow> charge) \<Rightarrow> unit io" where
  "updateChargeStatus dn nw chargeId status extra =
     supabase_patch_deposit_charges dn chargeId
       (\<lambda>r. (extra (r\<lparr>c_status := status\<rparr>))\<lparr>c_updated_at := nw\<rparr>)"

text \<open>\<^verbatim>\<open>x || null\<close> on an optional string: the empty string is falsy.\<close>

definition truthy_str :: "string option \<Rightarrow> string option" where
  "truthy_str x = (case x of None \<Rightarrow> None | Some v \<Rightarrow> if v = [] then None else Some v)"

text \<open>\<^verbatim>\<open>x || y\<close> on an optional number: \<^verbatim>\<open>undefined\<close> and 0 are falsy.\<close>

definition truthy_num :: "int option \<Rightarrow> int option" where
  "truthy_num x = (case x of None \<Rightarrow> None | Some v \<Rightarrow> if v = 0 then None else Some v)"

text \<open>\<^verbatim>\<open>tx?.id || null\<close>: the id 0 is falsy.\<close>

definition truthy_id :: "nat \<Rightarrow> nat option" where
  "truthy_id n = (if n = 0 then None else Some n)"

definition or_else :: "'a option \<Rightarrow> 'a option \<Rightarrow> 'a option" where
  "or_else x y = (case x of None \<Rightarrow> y | Some v \<Rightarrow> Some v)"

text \<open>
  \<^verbatim>\<open>payments.find(p => p.status === 'CONFIRMED') || payments[payments.length - 1] || {}\<close>
\<close>

definition emptyPayment :: payment where
  "emptyPayment = \<lparr>p_status = None, p_transaction_id = None, p_crypto_amount = None,
                   p_confirmations = None\<rparr>"

definition confirmedPmt :: "payment list \<Rightarrow> payment" where
  "confirmedPmt payments =
     (case find (\<lambda>p. p_status p = Some ''CONFIRMED'') payments of
        Some p \<Rightarrow> p
      | None \<Rightarrow> (if payments = [] then emptyPayment else last payments))"

definition latestPayment :: "payment list \<Rightarrow> payment" where
  "latestPayment payments = (if payments = [] then emptyPayment else last payments)"

text \<open>
  \<^verbatim>\<open>parseFloat(confirmedPmt.value?.crypto?.amount || charge.crypto_amount || 0)\<close>
\<close>

definition cryptoAmount :: "payment \<Rightarrow> charge \<Rightarrow> int" where
  "cryptoAmount pmt charge =
     (case or_else (truthy_num (p_crypto_amount pmt)) (truthy_num (c_crypto_amount charge)) of
        None \<Rightarrow> 0 | Some v \<Rightarrow> v)"

text \<open>\<^verbatim>\<open>parseInt(confirmedPmt.block?.confirmations || charge.confirm_threshold)\<close>\<close>

definition confirmations_of :: "payment \<Rightarrow> charge \<Rightarrow> int" where
  "confirmations_of pmt charge =
     (case truthy_num (p_confirmations pmt) of
        None \<Rightarrow> c_confirm_threshold charge | Some v \<Rightarrow> v)"

text \<open>\<^verbatim>\<open>cryptoAmount || charge.crypto_amount\<close>, the delta and the amount of the row.\<close>

definition creditAmount :: "payment \<Rightarrow> charge \<Rightarrow> int option" where
  "creditAmount pmt charge =
     (if cryptoAmount pmt charge \<noteq> 0 then Some (cryptoAmount pmt charge)
      else c_crypto_amount charge)"

text \<open>
  The \<^verbatim>\<open>charge:confirmed\<close> case of the switch. The amount of the inserted row is the
  delta; the insert is reached only after the balance primitive took that delta, so it
  is a number there.
\<close>

definition on_confirmed :: "webhook_env \<Rightarrow> charge_data \<Rightarrow> charge \<Rightarrow> unit io" where
  "on_confirmed env data charge =
     (if c_credited charge then ret ()
      else
        let payments = (case d_payments data of None \<Rightarrow> [] | Some ps \<Rightarrow> ps);
            pmt = confirmedPmt payments;
            networkTx = truthy_str (p_transaction_id pmt);
            confirmations = confirmations_of pmt charge
        in
        if confirmations < c_confirm_threshold charge then
          updateChargeStatus (down env) (now env) (c_id charge) ''confirming''
            (\<lambda>r. r\<lparr>c_confirmations := confirmations, c_network_tx := networkTx\<rparr>)
        else
          andThen (supabase_rpc_upsert_balance (down env) (c_user_id charge) (c_asset charge)
                     (creditAmount pmt charge)) (\<lambda>_.
          andThen (supabase_post_transactions (down env)
                     \<lparr>t_id = 0, t_user_id = c_user_id charge, t_type = ''deposit'',
                      t_asset = c_asset charge,
                      t_amount = (case creditAmount pmt charge of None \<Rightarrow> 0 | Some v \<Rightarrow> v),
                      t_usd_value = Some (c_amount_usd charge), t_fee_amount = None,
                      t_fee_usd = None, t_status = ''completed'', t_tx_hash = networkTx,
                      t_network = None, t_address = None,
                      t_notes = Some (''Coinbase Commerce - charge '' @ c_coinbase_charge_code charge),
                      t_updated_at = now env\<rparr>) (\<lambda>tx.
          andThen (supabase_patch_deposit_charges (down env) (c_id charge)
                     (\<lambda>r. r\<lparr>c_status := ''completed'', c_credited := True,
                            c_confirmations := confirmations, c_network_tx := networkTx,
                            c_transaction_id := truthy_id (t_id tx),
                            c_updated_at := now env\<rparr>)) (\<lambda>_.
          andThen (auditLog (down env) (now env) (Some (c_user_id charge)) ''deposit_credited''
                     None None) (\<lambda>_.
          andThen (supabase_get_users_by_id (down env) (c_user_id charge)) (\<lambda>userRows.
          ret ()))))))"

text \<open>The switch on the event type; every case ends in \<^verbatim>\<open>break\<close>.\<close>

definition dispatch :: "webhook_env \<Rightarrow> string \<Rightarrow> charge_data \<Rightarrow> charge \<Rightarrow> unit io" where
  "dispatch env type data charge =
     (if type = ''charge:created'' then
        updateChargeStatus (down env) (now env) (c_id charge) ''pending'' (\<lambda>r. r)
      else if type = ''charge:pending'' then
        (let payments = (case d_payments data of None \<Rightarrow> [] | Some ps \<Rightarrow> ps);
             pmt = latestPayment payments
         in andThen (updateChargeStatus (down env) (now env) (c_id charge) ''detected''
                       (\<lambda>r. r\<lparr>c_confirmations := 0,
                              c_network_tx := truthy_str (p_transaction_id pmt)\<rparr>)) (\<lambda>_.
            andThen (supabase_get_users_by_id (down env) (c_user_id charge)) (\<lambda>userRows.
            ret ())))
      else if type = ''charge:confirmed'' then on_confirmed env data charge
      else if type = ''charge:failed'' \<or> type = ''charge:expired'' then
        andThen (updateChargeStatus (down env) (now env) (c_id charge) ''failed'' (\<lambda>r. r)) (\<lambda>_.
        auditLog (down env) (now env) (Some (c_user_id charge)) ''deposit_failed'' None None)
      else if type = ''charge:delayed'' then
        updateChargeStatus (down env) (now env) (c_id charge) ''underpaid'' (\<lambda>r. r)
      else if type = ''charge:resolved'' then
        updateChargeStatus (down env) (now env) (c_id charge) ''resolved'' (\<lambda>r. r)
      else ret ())"

text \<open>
  Steps 3 to 5 of the handler, the part inside \<^verbatim>\<open>try { ... } catch (err) { ... }\<close>.
  \<^verbatim>\<open>encodeURIComponent(undefined)\<close> is the text \<^verbatim>\<open>undefined\<close>.
\<close>

definition process_event :: "webhook_env \<Rightarrow> string \<Rightarrow> charge_data \<Rightarrow> response io" where
  "process_event env type data =
     tryCatch
       (andThen (supabase_get_deposit_charges (down env)
                   (case d_id data of None \<Rightarrow> ''undefined'' | Some i \<Rightarrow> i)) (\<lambda>charges.
          case charges of
            [] \<Rightarrow> ret \<lparr>statusCode = 200, body = Plain ''OK''\<rparr>
          | charge # _ \<Rightarrow>
              andThen (dispatch env type data charge) (\<lambda>_.
              ret \<lparr>statusCode = 200, body = Received\<rparr>)))
       (\<lambda>err. ret \<lparr>statusCode = 200, body = ReceivedError err\<rparr>)"

text \<open>
  \<^verbatim>\<open>exports.handler\<close> of \<^verbatim>\<open>deposit-webhook.js\<close>. The signature comparison and the
  read of \<^verbatim>\<open>payload.event\<close> are outside every \<^verbatim>\<open>try\<close>.
\<close>

definition deposit_webhook_handler :: "webhook_env \<Rightarrow> webhook_request \<Rightarrow> response io" where
  "deposit_webhook_handler env event =
     (if httpMethod event \<noteq> ''POST'' then ret \<lparr>statusCode = 405, body = Plain ''Method Not Allowed''\<rparr>
      else
        let signature = (case x_cc_webhook_signature event of None \<Rightarrow> [] | Some v \<Rightarrow> v);
            rawBody = (case rawBody_opt event of None \<Rightarrow> [] | Some v \<Rightarrow> v)
        in
        case truthy_str (WEBHOOK_SECRET env) of
          None \<Rightarrow> ret \<lparr>statusCode = 500, body = Plain ''Webhook secret not configured''\<rparr>
        | Some secret \<Rightarrow>
            (let expectedSig = hmac_sha256_hex env secret rawBody in
             case timingSafeEqual signature expectedSig of
               Inl e \<Rightarrow> throw e
             | Inr False \<Rightarrow> ret \<lparr>statusCode = 401, body = Plain ''Invalid signature''\<rparr>
             | Inr True \<Rightarrow>
                 (case JSON_parse env rawBody of
                    Unparsable \<Rightarrow> ret \<lparr>statusCode = 400, body = Plain ''Invalid JSON''\<rparr>
                  | JsonNull \<Rightarrow> throw TypeError
                  | Json ev \<Rightarrow>
                      (let type = (case ev of None \<Rightarrow> None | Some e \<Rightarrow> truthy_str (e_type e));
                           data = (case ev of None \<Rightarrow> None | Some e \<Rightarrow> e_data e)
                       in case (type, data) of
                            (Some t, Some d) \<Rightarrow> process_event env t d
                          | _ \<Rightarrow> ret \<lparr>statusCode = 400,
                                      body = Plain ''Missing event type or data''\<rparr>))))"

subsection \<open>\<^verbatim>\<open>_db.js\<close>, \<^verbatim>\<open>auth-user.js\<close>: session verification\<close>

text \<open>
  The value \<^verbatim>\<open>JSON.parse\<close> decodes from a session token: \<^verbatim>\<open>null\<close>, a falsy primitive
  (\<^verbatim>\<open>0\<close>, \<^verbatim>\<open>false\<close>, the empty string), or any other value, of which the handlers read
  the properties below (absent on a value that has none). \<open>s_exp\<close> is in seconds.
\<close>

record session_payload =
  s_sub :: "string option"
  s_email :: "string option"
  s_name :: "string option"
  s_exp :: "int option"
  s_isAdmin :: bool

datatype json_payload = PNull | PFalsy | PValue session_payload

record api_env =
  AUTH0_COOKIE_SECRET :: "string option"
  hmac_sha256_base64url :: "string \<Rightarrow> string \<Rightarrow> string"
  parse_base64url_json :: "string \<Rightarrow> exn + json_payload"
  date_now :: int
  api_down :: "call \<Rightarrow> bool"
  api_now :: string
  live_price :: "string \<Rightarrow> int option"

definition COOKIE_NAME :: string where
  "COOKIE_NAME = ''apex_session''"

text \<open>\<^verbatim>\<open>s.split(c)\<close> for a one-character separator: never empty.\<close>

fun split :: "char \<Rightarrow> string \<Rightarrow> string list" where
  "split c [] = [[]]"
| "split c (x # xs) =
     (if x = c then [] # split c xs
      else (case split c xs of [] \<Rightarrow> [[x]] | y # ys \<Rightarrow> (x # y) # ys))"

text \<open>\<^verbatim>\<open>s.trim()\<close>, on the ASCII white space.\<close>

definition is_space :: "char \<Rightarrow> bool" where
  "is_space c \<longleftrightarrow> c \<in> set [CHR '' '', CHR 0x09, CHR 0x0A, CHR 0x0B, CHR 0x0C, CHR 0x0D]"

definition trim :: "string \<Rightarrow> string" where
  "trim s = rev (dropWhile is_space (rev (dropWhile is_space s)))"

definition startsWith :: "string \<Rightarrow> string \<Rightarrow> bool" where
  "startsWith s p \<longleftrightarrow> take (length p) s = p"

text \<open>
  \<^verbatim>\<open>crypto.createHmac('sha256', secret).update(data).digest('base64url')\<close>:
  \<^verbatim>\<open>createHmac\<close> throws a \<^verbatim>\<open>TypeError\<close> when the key is \<^verbatim>\<open>undefined\<close>.
\<close>

definition createHmac_base64url :: "api_env \<Rightarrow> string option \<Rightarrow> string \<Rightarrow> exn + string" where
  "createHmac_base64url env secret data =
     (case secret of None \<Rightarrow> Inl TypeError | Some k \<Rightarrow> Inr (hmac_sha256_base64url env k data))"

text \<open>\<^verbatim>\<open>payload.exp && Date.now() / 1000 > payload.exp\<close>, \<^verbatim>\<open>Date.now()\<close> in milliseconds.\<close>

definition expired :: "api_env \<Rightarrow> session_payload \<Rightarrow> bool" where
  "expired env payload =
     (case truthy_num (s_exp payload) of None \<Rightarrow> False | Some e \<Rightarrow> date_now env > e * 1000)"

text \<open>
  The body of the \<^verbatim>\<open>try\<close> block of \<^verbatim>\<open>verifyPayload(token, secret)\<close>;
  \<^verbatim>\<open>const [data, sig] = token.split('.')\<close> takes the first two pieces.
\<close>

definition first_two :: "string list \<Rightarrow> string \<times> string" where
  "first_two pieces =
     (case pieces of [] \<Rightarrow> ([], []) | [d] \<Rightarrow> (d, []) | d # g # _ \<Rightarrow> (d, g))"

definition verifyPayload_try :: "api_env \<Rightarrow> string \<Rightarrow> string option \<Rightarrow> exn + json_payload" where
  "verifyPayload_try env token secret =
     (case first_two (split CHR ''.'' token) of (data, sig) \<Rightarrow>
        (if data = [] \<or> sig = [] then Inr PNull
         else case createHmac_base64url env secret data of
           Inl e \<Rightarrow> Inl e
         | Inr expected \<Rightarrow>
            (case timingSafeEqual sig expected of
               Inl e \<Rightarrow> Inl e
             | Inr False \<Rightarrow> Inr PNull
             | Inr True \<Rightarrow> parse_base64url_json env data)))"

text \<open>\<^verbatim>\<open>try { ... } catch { return null; }\<close>\<close>

definition verifyPayload :: "api_env \<Rightarrow> string \<Rightarrow> string option \<Rightarrow> exn + json_payload" where
  "verifyPayload env token secret =
     (case verifyPayload_try env token secret of Inl _ \<Rightarrow> Inr PNull | Inr p \<Rightarrow> Inr p)"

definition parseCookie :: "string \<Rightarrow> string \<Rightarrow> string option" where
  "parseCookie header nm =
     (case find (\<lambda>s. startsWith s (nm @ ''='')) (map trim (split CHR '';'' header)) of
        None \<Rightarrow> None
      | Some match \<Rightarrow> Some (drop (length nm + 1) match))"

definition unauth_user :: response where
  "unauth_user = \<lparr>statusCode = 401, body = JsonFalse\<rparr>"

text \<open>\<^verbatim>\<open>exports.handler\<close> of \<^verbatim>\<open>auth-user.js\<close>; its argument is the cookie header.\<close>

definition auth_user_handler :: "api_env \<Rightarrow> string option \<Rightarrow> exn + response" where
  "auth_user_handler env cookie =
     (let cookieHeader = (case cookie of None \<Rightarrow> [] | Some c \<Rightarrow> c) in
      case truthy_str (parseCookie cookieHeader COOKIE_NAME) of
        None \<Rightarrow> Inr unauth_user
      | Some raw \<Rightarrow>
         (case verifyPayload env raw (AUTH0_COOKIE_SECRET env) of
            Inl e \<Rightarrow> Inl e
          | Inr PNull \<Rightarrow> Inr unauth_user
          | Inr PFalsy \<Rightarrow> Inr unauth_user
          | Inr (PValue payload) \<Rightarrow>
              if expired env payload then Inr unauth_user
              else Inr \<lparr>statusCode = 200, body = JsonOk\<rparr>))"

text \<open>
  The body of the \<^verbatim>\<open>try\<close> block of \<^verbatim>\<open>getSession\<close> in \<^verbatim>\<open>_db.js\<close>: as
  \<^verbatim>\<open>verifyPayload\<close>, then the expiry test; \<^verbatim>\<open>payload.exp\<close> throws on \<^verbatim>\<open>null\<close> and is
  \<^verbatim>\<open>undefined\<close> on a falsy primitive.
\<close>

definition getSession_try :: "api_env \<Rightarrow> string \<Rightarrow> exn + json_payload" where
  "getSession_try env token =
     (case first_two (split CHR ''.'' token) of (data, sig) \<Rightarrow>
        (if data = [] \<or> sig = [] then Inr PNull
         else case createHmac_base64url env (AUTH0_COOKIE_SECRET env) data of
           Inl e \<Rightarrow> Inl e
         | Inr expected \<Rightarrow>
            (case timingSafeEqual sig expected of
               Inl e \<Rightarrow> Inl e
             | Inr False \<Rightarrow> Inr PNull
             | Inr True \<Rightarrow>
                (case parse_base64url_json env data of
                   Inl e \<Rightarrow> Inl e
                 | Inr PNull \<Rightarrow> Inl TypeError
                 | Inr PFalsy \<Rightarrow> Inr PFalsy
                 | Inr (PValue payload) \<Rightarrow>
                     if expired env payload then Inr PNull else Inr (PValue payload)))))"

definition getSession :: "api_env \<Rightarrow> string option \<Rightarrow> exn + json_payload" where
  "getSession env cookie =
     (let cookieHeader = (case cookie of None \<Rightarrow> [] | Some c \<Rightarrow> c) in
      case find (\<lambda>s. startsWith s (COOKIE_NAME @ ''='')) (map trim (split CHR '';'' cookieHeader)) of
        None \<Rightarrow> Inr PNull
      | Some raw \<Rightarrow>
         (case getSession_try env (drop (length COOKIE_NAME + 1) raw) of
            Inl _ \<Rightarrow> Inr PNull
          | Inr p \<Rightarrow> Inr p))"

definition unauth :: response where
  "unauth = \<lparr>statusCode = 401, body = JsonError ''Unauthorised''\<rparr>"

definition forbidden :: response where
  "forbidden = \<lparr>statusCode = 403, body = JsonError ''Forbidden''\<rparr>"

definition badReq :: "string \<Rightarrow> response" where
  "badReq msg = \<lparr>statusCode = 400, body = JsonError msg\<rparr>"

definition serverErr :: "exn \<Rightarrow> response" where
  "serverErr err = \<lparr>statusCode = 502, body = JsonThrown err\<rparr>"

subsection \<open>\<^verbatim>\<open>_admin-guard.js\<close>\<close>

record 'b api_request =
  r_httpMethod :: string
  r_cookie :: "string option"
  r_x_forwarded_for :: "string option"
  r_user_agent :: "string option"
  r_json_body :: "'b parsed_body"

text \<open>
  \<^verbatim>\<open>requireAdmin(handler)\<close>: the session check, then the handler inside
  \<^verbatim>\<open>try/catch\<close>. The \<^verbatim>\<open>catch\<close> answers with \<^verbatim>\<open>json(502, ...)\<close>, and \<^verbatim>\<open>json\<close> is taken
  from \<^verbatim>\<open>require('./_db')\<close>, whose \<^verbatim>\<open>module.exports\<close> has no \<^verbatim>\<open>json\<close>: the name is
  \<^verbatim>\<open>undefined\<close> in the guard, the call throws a \<^verbatim>\<open>TypeError\<close> inside the \<^verbatim>\<open>catch\<close>, and so
  an exception of the handler leaves the guard as a \<^verbatim>\<open>TypeError\<close>.
\<close>

definition requireAdmin ::
    "(api_env \<Rightarrow> 'b api_request \<Rightarrow> session_payload \<Rightarrow> response io) \<Rightarrow>
     api_env \<Rightarrow> 'b api_request \<Rightarrow> response io" where
  "requireAdmin handler env event =
     (if r_httpMethod event = ''OPTIONS'' then ret \<lparr>statusCode = 204, body = Plain []\<rparr>
      else case getSession env (r_cookie event) of
        Inl e \<Rightarrow> throw e
      | Inr PNull \<Rightarrow> ret unauth
      | Inr PFalsy \<Rightarrow> ret unauth
      | Inr (PValue session) \<Rightarrow>
          if \<not> s_isAdmin session then ret forbidden
          else tryCatch (handler env event session) (\<lambda>err. throw TypeError))"

subsection \<open>\<^verbatim>\<open>admin-transaction-update.js\<close>\<close>

record update_body =
  b_transactionId :: "nat option"
  b_status :: "string option"
  b_notes :: "string option"

definition ALLOWED_STATUSES :: "string list" where
  "ALLOWED_STATUSES = [''completed'', ''processing'', ''failed'', ''cancelled'']"

text \<open>\<^verbatim>\<open>parseFloat(tx.amount) + (parseFloat(tx.fee_amount) || 0)\<close>\<close>

definition refundDelta :: "transaction \<Rightarrow> int" where
  "refundDelta tx = t_amount tx + (case truthy_num (t_fee_amount tx) of None \<Rightarrow> 0 | Some f \<Rightarrow> f)"

text \<open>The guard of the refund.\<close>

definition refundDue :: "transaction \<Rightarrow> string \<Rightarrow> bool" where
  "refundDue tx status \<longleftrightarrow>
     t_type tx = ''withdrawal'' \<and> (status = ''failed'' \<or> status = ''cancelled'') \<and>
     t_status tx \<noteq> ''failed'' \<and> t_status tx \<noteq> ''cancelled''"

text \<open>
  \<^verbatim>\<open>notes ? `${tx.notes || ''}\n[ADMIN ${new Date().toISOString()}] ${notes}`.trim() : tx.notes\<close>
\<close>

definition appendNotes :: "string \<Rightarrow> transaction \<Rightarrow> string option \<Rightarrow> string option" where
  "appendNotes nw tx notes =
     (case truthy_str notes of
        None \<Rightarrow> t_notes tx
      | Some n \<Rightarrow>
          Some (trim ((case truthy_str (t_notes tx) of None \<Rightarrow> [] | Some old \<Rightarrow> old) @
                      [CHR 0x0A] @ ''[ADMIN '' @ nw @ ''] '' @ n)))"

text \<open>The handler that \<^verbatim>\<open>requireAdmin\<close> wraps.\<close>

definition admin_transaction_update_inner ::
    "api_env \<Rightarrow> update_body api_request \<Rightarrow> session_payload \<Rightarrow> response io" where
  "admin_transaction_update_inner env event session =
     (if r_httpMethod event \<noteq> ''POST'' then ret \<lparr>statusCode = 405, body = Plain ''Method Not Allowed''\<rparr>
      else case r_json_body event of
        Unparsable \<Rightarrow> ret (badReq ''Invalid JSON'')
      | JsonNull \<Rightarrow> throw TypeError
      | Json b \<Rightarrow>
         (case (case b_transactionId b of None \<Rightarrow> None | Some i \<Rightarrow> truthy_id i) of
            None \<Rightarrow> ret (badReq ''transactionId is required'')
          | Some transactionId \<Rightarrow>
             (case (case b_status b of None \<Rightarrow> None
                    | Some st \<Rightarrow> if st \<in> set ALLOWED_STATUSES then Some st else None) of
                None \<Rightarrow> ret (badReq (''Invalid status: '' @
                               (case b_status b of None \<Rightarrow> ''undefined'' | Some st \<Rightarrow> st) @
                               ''. Must be one of: completed, processing, failed, cancelled''))
              | Some status \<Rightarrow>
                 andThen (supabase_get_transactions (api_down env) transactionId) (\<lambda>txRows.
                 case txRows of
                   [] \<Rightarrow> ret (badReq ''Transaction not found'')
                 | tx # _ \<Rightarrow>
                    (let prevStatus = t_status tx in
                     if prevStatus = status then ret (badReq (''Transaction is already '' @ status))
                     else
                       andThen (if refundDue tx status
                                then tryCatch (supabase_rpc_upsert_balance (api_down env)
                                                 (t_user_id tx) (t_asset tx) (Some (refundDelta tx)))
                                       (\<lambda>err. ret ())
                                else ret ()) (\<lambda>_.
                       andThen (supabase_patch_transactions (api_down env) transactionId
                                  (\<lambda>r. r\<lparr>t_status := status,
                                         t_notes := appendNotes (api_now env) tx (b_notes b),
                                         t_updated_at := api_now env\<rparr>)) (\<lambda>_.
                       andThen (supabase_get_users_by_id (api_down env) (t_user_id tx)) (\<lambda>userRows.
                       andThen (auditLog (api_down env) (api_now env) None
                                  ''admin_transaction_status_update''
                                  (r_x_forwarded_for event) (r_user_agent event)) (\<lambda>_.
                       ret \<lparr>statusCode = 200,
                            body = JsonUpdated prevStatus status
                                     (t_type tx = ''withdrawal'' \<and>
                                      (status = ''failed'' \<or> status = ''cancelled''))\<rparr>)))))))))"

definition admin_transaction_update_handler :: "api_env \<Rightarrow> update_body api_request \<Rightarrow> response io" where
  "admin_transaction_update_handler = requireAdmin admin_transaction_update_inner"

subsection \<open>\<^verbatim>\<open>ledger-transaction-create.js\<close>\<close>

record create_body =
  cb_type :: "string option"
  cb_asset :: "string option"
  cb_amount :: "int option"
  cb_network :: "string option"
  cb_address :: "string option"
  cb_tx_hash :: "string option"
  cb_notes :: "string option"

definition ALLOWED_ASSETS :: "string list" where
  "ALLOWED_ASSETS = [''BTC'', ''ETH'', ''USDT'', ''USDC'', ''SOL'']"

definition ALLOWED_TYPES :: "string list" where
  "ALLOWED_TYPES = [''deposit'', ''withdrawal'']"

definition FALLBACK_PRICES :: "string \<Rightarrow> int option" where
  "FALLBACK_PRICES = map_of [(''BTC'', 67000), (''ETH'', 3500), (''USDT'', 1), (''USDC'', 1), (''SOL'', 180)]"

text \<open>
  Amounts are in units of \<open>10\<^sup>-\<^sup>8\<close> of the asset, so \<^verbatim>\<open>toFixed(8)\<close> keeps them; prices are
  in dollars and dollar values in cents. \<open>round_div a b\<close> is \<open>a / b\<close> rounded to the
  nearest integer, which stands for \<^verbatim>\<open>toFixed\<close> on the floating-point product.
\<close>

definition round_div :: "int \<Rightarrow> int \<Rightarrow> int" where
  "round_div a b = (2 * a + b) div (2 * b)"

text \<open>
  The price: \<^verbatim>\<open>FALLBACK_PRICES[asset] || 1\<close>, replaced by the live quote when the fetch
  succeeds and lists the asset.
\<close>

definition price_of :: "api_env \<Rightarrow> string \<Rightarrow> int" where
  "price_of env asset =
     (case live_price env asset of
        Some p \<Rightarrow> p
      | None \<Rightarrow> (case truthy_num (FALLBACK_PRICES asset) of None \<Rightarrow> 1 | Some p \<Rightarrow> p))"

text \<open>
  \<^verbatim>\<open>usd_value\<close>, \<^verbatim>\<open>fee_amount\<close> (0.1% on withdrawals), \<^verbatim>\<open>fee_usd\<close> and the \<^verbatim>\<open>delta\<close> handed
  to the balance primitive: the amount for a deposit, minus amount plus fee for a
  withdrawal.
\<close>

definition usd_value_of :: "api_env \<Rightarrow> string \<Rightarrow> int \<Rightarrow> int" where
  "usd_value_of env asset numAmount = round_div (numAmount * price_of env asset) 1000000"

definition fee_amount_of :: "string \<Rightarrow> int \<Rightarrow> int" where
  "fee_amount_of type numAmount = (if type = ''withdrawal'' then round_div numAmount 1000 else 0)"

definition fee_usd_of :: "api_env \<Rightarrow> string \<Rightarrow> string \<Rightarrow> int \<Rightarrow> int" where
  "fee_usd_of env type asset numAmount =
     round_div (fee_amount_of type numAmount * price_of env asset) 1000000"

definition delta_of :: "string \<Rightarrow> int \<Rightarrow> int" where
  "delta_of type numAmount =
     (if type = ''deposit'' then numAmount else - (numAmount + fee_amount_of type numAmount))"

text \<open>The part of the handler inside the outer \<^verbatim>\<open>try\<close>.\<close>

definition ledger_transaction_create_try ::
    "api_env \<Rightarrow> create_body api_request \<Rightarrow> session_payload \<Rightarrow> create_body \<Rightarrow>
     string \<Rightarrow> string \<Rightarrow> int \<Rightarrow> response io" where
  "ledger_transaction_create_try env event session b type asset numAmount =
     andThen (supabase_get_users_by_sub (api_down env)
                (case s_sub session of None \<Rightarrow> ''undefined'' | Some v \<Rightarrow> v)) (\<lambda>usrs.
     case usrs of
       [] \<Rightarrow> ret unauth
     | u # _ \<Rightarrow>
        (if u_kyc_status u = Some ''rejected'' then ret (badReq ''Account suspended. Contact support.'')
         else
           let userId = u_id u;
               usd_value = usd_value_of env asset numAmount;
               fee_amount = fee_amount_of type numAmount;
               fee_usd = fee_usd_of env type asset numAmount
           in
           if type = ''deposit'' \<and> usd_value < 50000
             then ret (badReq ''Minimum deposit is $500 USD equivalent'')
           else if type = ''withdrawal'' \<and> usd_value < 10000
             then ret (badReq ''Minimum withdrawal is $100 USD equivalent'')
           else
             let delta = delta_of type numAmount in
             andThen (tryCatch
                        (andThen (supabase_rpc_upsert_balance (api_down env) userId asset (Some delta))
                           (\<lambda>_. ret None))
                        (\<lambda>err. if err = InsufficientBalance
                                then ret (Some (badReq ''Insufficient balance''))
                                else throw err)) (\<lambda>early.
             case early of
               Some r \<Rightarrow> ret r
             | None \<Rightarrow>
                (let status = (if type = ''deposit'' then ''processing'' else ''pending'') in
                 andThen (supabase_post_transactions (api_down env)
                            \<lparr>t_id = 0, t_user_id = userId, t_type = type, t_asset = asset,
                             t_amount = numAmount, t_usd_value = Some usd_value,
                             t_fee_amount = truthy_num (Some fee_amount),
                             t_fee_usd = truthy_num (Some fee_usd), t_status = status,
                             t_tx_hash = cb_tx_hash b, t_network = truthy_str (cb_network b),
                             t_address = truthy_str (cb_address b),
                             t_notes = truthy_str (cb_notes b),
                             t_updated_at = api_now env\<rparr>) (\<lambda>tx.
                 andThen (auditLog (api_down env) (api_now env) (Some userId)
                            (type @ ''_initiated'') (r_x_forwarded_for event) (r_user_agent event)) (\<lambda>_.
                 ret \<lparr>statusCode = 200, body = JsonOk\<rparr>))))))"

text \<open>
  \<^verbatim>\<open>exports.handler\<close> of \<^verbatim>\<open>ledger-transaction-create.js\<close>. The \<^verbatim>\<open>return\<close> inside the
  inner \<^verbatim>\<open>catch\<close> is the \<open>Some\<close> of the inner result above.
\<close>

definition ledger_transaction_create_handler :: "api_env \<Rightarrow> create_body api_request \<Rightarrow> response io" where
  "ledger_transaction_create_handler env event =
     (if r_httpMethod event \<noteq> ''POST'' then ret \<lparr>statusCode = 405, body = Plain ''Method Not Allowed''\<rparr>
      else case getSession env (r_cookie event) of
        Inl e \<Rightarrow> throw e
      | Inr PNull \<Rightarrow> ret unauth
      | Inr PFalsy \<Rightarrow> ret unauth
      | Inr (PValue session) \<Rightarrow>
         (case r_json_body event of
            Unparsable \<Rightarrow> ret (badReq ''Invalid JSON'')
          | JsonNull \<Rightarrow> throw TypeError
          | Json b \<Rightarrow>
             (case (case cb_type b of None \<Rightarrow> None
                    | Some t \<Rightarrow> if t \<in> set ALLOWED_TYPES then Some t else None) of
                None \<Rightarrow> ret (badReq (''Invalid type: '' @
                               (case cb_type b of None \<Rightarrow> ''undefined'' | Some t \<Rightarrow> t)))
              | Some type \<Rightarrow>
                 (case (case cb_asset b of None \<Rightarrow> None
                        | Some a \<Rightarrow> if a \<in> set ALLOWED_ASSETS then Some a else None) of
                    None \<Rightarrow> ret (badReq (''Unsupported asset: '' @
                                   (case cb_asset b of None \<Rightarrow> ''undefined'' | Some a \<Rightarrow> a)))
                  | Some asset \<Rightarrow>
                     (case (case cb_amount b of None \<Rightarrow> None
                            | Some a \<Rightarrow> if a \<le> 0 then None else Some a) of
                        None \<Rightarrow> ret (badReq ''amount must be a positive number'')
                      | Some numAmount \<Rightarrow>
                         (if type = ''withdrawal'' \<and> truthy_str (cb_address b) = None
                          then ret (badReq ''address is required for withdrawals'')
                          else tryCatch
                                 (ledger_transaction_create_try env event session b type asset numAmount)
                                 (\<lambda>err. ret (serverErr err))))))))"

subsection \<open>\<^verbatim>\<open>admin-balance-adjust.js\<close>\<close>





subsection \<open>Vocabulary of the statements\<close>

text \<open>The row the webhook works on: \<^verbatim>\<open>charges[0]\<close> of the lookup by provider id.\<close>

definition lookup_charge :: "string \<Rightarrow> store \<Rightarrow> charge option" where
  "lookup_charge cid s = find (\<lambda>r. c_coinbase_charge_id r = cid) (deposit_charges s)"

definition rawBody :: "webhook_request \<Rightarrow> string" where
  "rawBody event = (case rawBody_opt event of None \<Rightarrow> [] | Some v \<Rightarrow> v)"

definition signature :: "webhook_request \<Rightarrow> string" where
  "signature event = (case x_cc_webhook_signature event of None \<Rightarrow> [] | Some v \<Rightarrow> v)"

text \<open>
  A POST whose signature header is the HMAC of its raw body under the configured secret.
\<close>

definition signed :: "webhook_env \<Rightarrow> webhook_request \<Rightarrow> bool" where
  "signed env event \<longleftrightarrow>
     httpMethod event = ''POST'' \<and>
     (case truthy_str (WEBHOOK_SECRET env) of
        None \<Rightarrow> False
      | Some secret \<Rightarrow> signature event = hmac_sha256_hex env secret (rawBody event))"

text \<open>A signed request whose body is an event of the given non-empty type with the given data.\<close>

definition delivers :: "webhook_env \<Rightarrow> webhook_request \<Rightarrow> string \<Rightarrow> charge_data \<Rightarrow> bool" where
  "delivers env event type data \<longleftrightarrow>
     signed env event \<and> type \<noteq> [] \<and>
     JSON_parse env (rawBody event) = Json (Some \<lparr>e_type = Some type, e_data = Some data\<rparr>)"

text \<open>A signed \<^verbatim>\<open>charge:confirmed\<close> event for the provider charge id \<open>cid\<close>, any payments.\<close>

definition confirmed_for :: "string \<Rightarrow> webhook_env \<times> webhook_request \<Rightarrow> bool" where
  "confirmed_for cid d \<longleftrightarrow>
     signed (fst d) (snd d) \<and>
     (case JSON_parse (fst d) (rawBody (snd d)) of
        Json (Some e) \<Rightarrow>
          e_type e = Some ''charge:confirmed'' \<and>
          (case e_data e of None \<Rightarrow> False | Some data \<Rightarrow> d_id data = Some cid)
      | _ \<Rightarrow> False)"

text \<open>Requests handled one after the other, each on the store the previous one left.\<close>

fun run :: "(webhook_env \<times> webhook_request) list \<Rightarrow> store \<Rightarrow> store" where
  "run [] s = s"
| "run (d # ds) s = run ds (snd (deposit_webhook_handler (fst d) (snd d) s))"

definition balance_of :: "store \<Rightarrow> nat \<Rightarrow> string \<Rightarrow> int" where
  "balance_of s u a = (case balances s (u, a) of None \<Rightarrow> 0 | Some v \<Rightarrow> v)"

definition same_charge :: "charge \<Rightarrow> charge \<Rightarrow> bool" where
  "same_charge c c' \<longleftrightarrow>
     c_id c' = c_id c \<and> c_user_id c' = c_user_id c \<and> c_asset c' = c_asset c \<and>
     c_confirm_threshold c' = c_confirm_threshold c \<and> c_crypto_amount c' = c_crypto_amount c"

text \<open>
  What a run of confirmed events did to the ledger, from store \<open>s\<close> with charge \<open>c\<close> to
  store \<open>s'\<close> with charge \<open>c'\<close>: if the charge ended credited, its status is completed,
  exactly one deposit row was appended and the balance of its user and asset grew by the
  amount of that row; if not, no row was appended and no balance changed.
\<close>

definition credit_outcome :: "store \<Rightarrow> store \<Rightarrow> charge \<Rightarrow> charge \<Rightarrow> bool" where
  "credit_outcome s s' c c' \<longleftrightarrow>
     (if c_credited c' then
        c_status c' = ''completed'' \<and>
        (\<exists>tx. transactions s' = transactions s @ [tx] \<and>
              t_type tx = ''deposit'' \<and> t_user_id tx = c_user_id c \<and> t_asset tx = c_asset c \<and>
              balances s' =
                (balances s)((c_user_id c, c_asset c) \<mapsto>
                   balance_of s (c_user_id c) (c_asset c) + t_amount tx))
      else transactions s' = transactions s \<and> balances s' = balances s)"

text \<open>
  \<^verbatim>\<open>encodeURIComponent(data.id)\<close>, the id the lookup uses; \<^verbatim>\<open>data.payments || []\<close>; and the
  confirmation count the payload reports: \<^verbatim>\<open>block?.confirmations\<close> of the payment the
  \<^verbatim>\<open>charge:confirmed\<close> case picks.
\<close>

definition provider_id :: "charge_data \<Rightarrow> string" where
  "provider_id data = (case d_id data of None \<Rightarrow> ''undefined'' | Some i \<Rightarrow> i)"

definition payments_of :: "charge_data \<Rightarrow> payment list" where
  "payments_of data = (case d_payments data of None \<Rightarrow> [] | Some ps \<Rightarrow> ps)"

definition reported_count :: "charge_data \<Rightarrow> int option" where
  "reported_count data = p_confirmations (confirmedPmt (payments_of data))"

text \<open>
  The data of the event a request carries, and the condition under which a
  \<^verbatim>\<open>charge:confirmed\<close> event with these data takes the credit path on an uncredited
  charge and the balance primitive accepts the delta: the count, after the fallback, is
  not below the threshold, and the amount to credit is a number that keeps the balance
  non-negative.
\<close>

definition event_data :: "webhook_env \<times> webhook_request \<Rightarrow> charge_data option" where
  "event_data d =
     (case JSON_parse (fst d) (rawBody (snd d)) of
        Json (Some e) \<Rightarrow> e_data e
      | _ \<Rightarrow> None)"

definition would_credit :: "charge_data \<Rightarrow> charge \<Rightarrow> store \<Rightarrow> bool" where
  "would_credit data c s \<longleftrightarrow>
     \<not> confirmations_of (confirmedPmt (payments_of data)) c < c_confirm_threshold c \<and>
     (case creditAmount (confirmedPmt (payments_of data)) c of
        None \<Rightarrow> False
      | Some d \<Rightarrow> 0 \<le> balance_of s (c_user_id c) (c_asset c) + d)"

definition creditable :: "webhook_env \<times> webhook_request \<Rightarrow> charge \<Rightarrow> store \<Rightarrow> bool" where
  "creditable d c s = (case event_data d of None \<Rightarrow> False | Some data \<Rightarrow> would_credit data c s)"

text \<open>A parsed body that lacks a non-empty \<^verbatim>\<open>event.type\<close> or lacks \<^verbatim>\<open>event.data\<close>.\<close>

definition event_missing :: "provider_event option parsed_body \<Rightarrow> bool" where
  "event_missing p =
     (case p of
        Json (Some e) \<Rightarrow> truthy_str (e_type e) = None \<or> e_data e = None
      | Json None \<Rightarrow> True
      | _ \<Rightarrow> False)"

text \<open>The rows the other handlers work on, and the cookie header they read.\<close>

definition lookup_tx :: "nat \<Rightarrow> store \<Rightarrow> transaction option" where
  "lookup_tx tid s = find (\<lambda>r. t_id r = tid) (transactions s)"



definition cookieHeader :: "string option \<Rightarrow> string" where
  "cookieHeader ck = (case ck of None \<Rightarrow> [] | Some c \<Rightarrow> c)"




definition refund_refused ::
    "api_env \<Rightarrow> update_body api_request \<Rightarrow> nat \<Rightarrow> string \<Rightarrow> transaction \<Rightarrow> store \<Rightarrow> bool" where
  "refund_refused env event tid st tx s \<longleftrightarrow>
     r_httpMethod event = ''POST'' \<and>
     (case (getSession env (r_cookie event), r_json_body event) of
        (Inr (PValue session), Json b) \<Rightarrow>
          s_isAdmin session \<and> b_transactionId b = Some tid \<and> tid \<noteq> 0 \<and>
          b_status b = Some st \<and> st \<in> set ALLOWED_STATUSES \<and>
          lookup_tx tid s = Some tx \<and> t_status tx \<noteq> st \<and> refundDue tx st \<and>
          \<not> api_down env GetTransactions \<and> \<not> api_down env RpcUpsertBalance \<and>
          \<not> api_down env PatchTransactions \<and> \<not> api_down env GetUsers \<and>
          balance_of s (t_user_id tx) (t_asset tx) + refundDelta tx < 0
      | _ \<Rightarrow> False)"



subsection \<open>Concrete inputs\<close>

text \<open>
  The scenario of section 8 of the specification: a BTC charge with threshold 3 and the
  events \<^verbatim>\<open>pending\<close>, \<^verbatim>\<open>confirmed\<close> with 1 confirmation, \<^verbatim>\<open>confirmed\<close> with 3 confirmations
  and 0.05 BTC. The stand-ins for HMAC-SHA256 and \<^verbatim>\<open>JSON.parse\<close> are fixed functions
  on the few bodies used.
\<close>

definition demo_charge :: charge where
  "demo_charge = \<lparr>c_id = 7, c_coinbase_charge_id = ''cb-1'', c_coinbase_charge_code = ''CODE1'',
     c_user_id = 1, c_asset = ''BTC'', c_amount_usd = 335000, c_crypto_amount = Some 5000000,
     c_status = ''pending'', c_confirmations = 0, c_confirm_threshold = 3, c_credited = False,
     c_network_tx = None, c_transaction_id = None, c_updated_at = ''t0''\<rparr>"

definition demo_store :: store where
  "demo_store = \<lparr>users = [], deposit_charges = [demo_charge], balances = Map.empty,
     transactions = [], audit_log = []\<rparr>"

definition demo_data :: "int option \<Rightarrow> charge_data" where
  "demo_data n = \<lparr>d_id = Some ''cb-1'', d_code = Some ''CODE1'',
     d_payments = Some [\<lparr>p_status = Some ''CONFIRMED'', p_transaction_id = Some ''0xabc'',
                         p_crypto_amount = Some 5000000, p_confirmations = n\<rparr>]\<rparr>"

definition demo_parse :: "string \<Rightarrow> provider_event option parsed_body" where
  "demo_parse b =
     (if b = ''confirmed-0'' then Json (Some \<lparr>e_type = Some ''charge:confirmed'', e_data = Some (demo_data (Some 0))\<rparr>)
      else if b = ''confirmed-1'' then Json (Some \<lparr>e_type = Some ''charge:confirmed'', e_data = Some (demo_data (Some 1))\<rparr>)
      else if b = ''confirmed-2'' then Json (Some \<lparr>e_type = Some ''charge:confirmed'', e_data = Some (demo_data (Some 2))\<rparr>)
      else if b = ''confirmed-3'' then Json (Some \<lparr>e_type = Some ''charge:confirmed'', e_data = Some (demo_data (Some 3))\<rparr>)
      else if b = ''confirmed'' then Json (Some \<lparr>e_type = Some ''charge:confirmed'', e_data = Some (demo_data None)\<rparr>)
      else if b = ''pending'' then Json (Some \<lparr>e_type = Some ''charge:pending'', e_data = Some (demo_data None)\<rparr>)
      else if b = ''created'' then Json (Some \<lparr>e_type = Some ''charge:created'', e_data = Some (demo_data None)\<rparr>)
      else if b = ''unknown'' then Json (Some \<lparr>e_type = Some ''charge:confirmed'',
              e_data = Some \<lparr>d_id = Some ''cb-9'', d_code = None, d_payments = None\<rparr>\<rparr>)
      else if b = ''{}'' then Json None
      else if b = ''null'' then JsonNull
      else Unparsable)"

definition demo_env :: webhook_env where
  "demo_env = \<lparr>WEBHOOK_SECRET = Some ''whsec'', hmac_sha256_hex = (\<lambda>k m. ''mac:'' @ k @ '':'' @ m),
     JSON_parse = demo_parse, down = (\<lambda>_. False), now = ''t1''\<rparr>"

text \<open>The same environment while the insert into \<^verbatim>\<open>transactions\<close> fails.\<close>

definition demo_env_outage :: webhook_env where
  "demo_env_outage = demo_env\<lparr>down := (\<lambda>k. k = PostTransactions)\<rparr>"

text \<open>The same environment while the patch of \<^verbatim>\<open>deposit_charges\<close> fails.\<close>

definition demo_env_patch_outage :: webhook_env where
  "demo_env_patch_outage = demo_env\<lparr>down := (\<lambda>k. k = PatchDepositCharges)\<rparr>"

definition demo_request :: "string \<Rightarrow> webhook_request" where
  "demo_request b = \<lparr>httpMethod = ''POST'',
     x_cc_webhook_signature = Some (''mac:whsec:'' @ b), rawBody_opt = Some b\<rparr>"

text \<open>
  A session of an administrator, and an environment for the cookie-authenticated
  endpoints with fixed stand-ins for HMAC-SHA256 and the decoding of the payload.
\<close>

definition demo_session :: session_payload where
  "demo_session = \<lparr>s_sub = Some ''auth0|1'', s_email = Some ''admin@apex.example'',
     s_name = Some ''Admin'', s_exp = Some 2000, s_isAdmin = True\<rparr>"

definition demo_api_env :: api_env where
  "demo_api_env = \<lparr>AUTH0_COOKIE_SECRET = Some ''cookie-secret'',
     hmac_sha256_base64url = (\<lambda>k d. ''mac-'' @ d),
     parse_base64url_json = (\<lambda>d. if d = ''admin'' then Inr (PValue demo_session)
                                else if d = ''null'' then Inr PNull else Inl SyntaxError),
     date_now = 1000000, api_down = (\<lambda>_. False), api_now = ''t2'', live_price = (\<lambda>_. None)\<rparr>"

text \<open>
  The scenario of section 8: a withdrawal of 1.0 ETH with a fee of 0.001 ETH, in the
  status given, of user 1, whose ETH balance is 5.
\<close>

definition demo_withdrawal :: "string \<Rightarrow> int \<Rightarrow> transaction" where
  "demo_withdrawal st amount = \<lparr>t_id = 1, t_user_id = 1, t_type = ''withdrawal'', t_asset = ''ETH'',
     t_amount = amount, t_usd_value = Some 350000, t_fee_amount = Some 100000,
     t_fee_usd = Some 350, t_status = st, t_tx_hash = None, t_network = None,
     t_address = Some ''0xdest'', t_notes = None, t_updated_at = ''t0''\<rparr>"

definition demo_user :: user where
  "demo_user = \<lparr>u_id = 1, u_auth0_sub = ''auth0|1'', u_email = ''admin@apex.example'',
     u_name = Some ''Admin'', u_kyc_status = Some ''approved''\<rparr>"

definition demo_ledger :: "string \<Rightarrow> int \<Rightarrow> store" where
  "demo_ledger st amount = \<lparr>users = [demo_user], deposit_charges = [],
     balances = [(1, ''ETH'') \<mapsto> 500000000], transactions = [demo_withdrawal st amount],
     audit_log = []\<rparr>"

definition demo_update :: "string \<Rightarrow> update_body api_request" where
  "demo_update st = \<lparr>r_httpMethod = ''POST'',
     r_cookie = Some ''apex_session=admin.mac-admin'', r_x_forwarded_for = None,
     r_user_agent = None,
     r_json_body = Json \<lparr>b_transactionId = Some 1, b_status = Some st, b_notes = None\<rparr>\<rparr>"


section \<open>Properties\<close>

subsection \<open>Stepping through the webhook\<close>

lemmas demo_defs =
  demo_env_def demo_request_def demo_parse_def demo_data_def demo_store_def demo_charge_def

lemmas webhook_defs =
  deposit_webhook_handler_def process_event_def dispatch_def on_confirmed_def
  truthy_str_def truthy_num_def truthy_id_def or_else_def timingSafeEqual_def
  confirmedPmt_def latestPayment_def confirmations_of_def cryptoAmount_def creditAmount_def
  updateChargeStatus_def supabase_patch_deposit_charges_def supabase_get_deposit_charges_def
  supabase_rpc_upsert_balance_def upsert_balance_def supabase_post_transactions_def
  auditLog_def supabase_get_users_by_id_def andThen_def tryCatch_def ret_def throw_def Let_def

lemma handler_delivers:
  "delivers env event type data \<Longrightarrow>
   deposit_webhook_handler env event s = process_event env type data s"
  by (auto simp: delivers_def signed_def rawBody_def signature_def deposit_webhook_handler_def
      timingSafeEqual_def truthy_str_def Let_def split: option.splits)

lemma case_filter_find:
  "(case filter P xs of [] \<Rightarrow> a | x # _ \<Rightarrow> f x) = (case find P xs of None \<Rightarrow> a | Some x \<Rightarrow> f x)"
  by (induction xs) auto

lemma process_event_eq:
  "process_event env type data s =
     (if down env GetDepositCharges
      then (Inr \<lparr>statusCode = 200, body = ReceivedError StoreFailure\<rparr>, s)
      else case lookup_charge (case d_id data of None \<Rightarrow> ''undefined'' | Some i \<Rightarrow> i) s of
        None \<Rightarrow> (Inr \<lparr>statusCode = 200, body = Plain ''OK''\<rparr>, s)
      | Some charge \<Rightarrow>
         (case dispatch env type data charge s of
            (Inl e, s') \<Rightarrow> (Inr \<lparr>statusCode = 200, body = ReceivedError e\<rparr>, s')
          | (Inr _, s') \<Rightarrow> (Inr \<lparr>statusCode = 200, body = Received\<rparr>, s')))"
  unfolding process_event_def tryCatch_def andThen_def supabase_get_deposit_charges_def ret_def
    lookup_charge_def
  by (simp add: case_filter_find[symmetric] split: prod.splits sum.splits list.splits)

lemma on_confirmed_credited:
  "c_credited charge \<Longrightarrow> on_confirmed env data charge s = (Inr (), s)"
  by (simp add: on_confirmed_def ret_def)

lemma confirmed_for_delivers:
  "confirmed_for cid (env, event) \<Longrightarrow>
   \<exists>data. delivers env event ''charge:confirmed'' data \<and> d_id data = Some cid"
  unfolding confirmed_for_def delivers_def
  apply (auto split: parsed_body.splits option.splits)
  subgoal for e data
    by (cases e) auto
  done

lemma find_patch:
  assumes "find (\<lambda>r. c_coinbase_charge_id r = cid) xs = Some c"
    and "\<And>r. c_coinbase_charge_id (f r) = c_coinbase_charge_id r"
  shows "find (\<lambda>r. c_coinbase_charge_id r = cid)
           (map (\<lambda>r. if c_id r = c_id c then f r else r) xs) = Some (f c)"
  using assms(1) by (induction xs) (auto simp: assms(2))

lemma confirmed_handler_credited:
  assumes "confirmed_for cid d" "lookup_charge cid s = Some c" "c_credited c"
  shows "deposit_webhook_handler (fst d) (snd d) s =
           (Inr \<lparr>statusCode = 200,
                 body = (if down (fst d) GetDepositCharges then ReceivedError StoreFailure
                         else Received)\<rparr>, s)"
proof -
  obtain data where d: "delivers (fst d) (snd d) ''charge:confirmed'' data" "d_id data = Some cid"
    using confirmed_for_delivers[of cid "fst d" "snd d"] assms(1) by auto
  show ?thesis
    by (simp add: handler_delivers[OF d(1)] process_event_eq d(2) assms dispatch_def
        on_confirmed_credited)
qed

lemma run_credited:
  assumes "\<forall>d\<in>set ds. confirmed_for cid d" "lookup_charge cid s = Some c" "c_credited c"
  shows "run ds s = s"
  using assms
proof (induction ds)
  case Nil
  then show ?case by simp
next
  case (Cons d ds)
  have "snd (deposit_webhook_handler (fst d) (snd d) s) = s"
    using confirmed_handler_credited[of cid d s c] Cons.prems by simp
  with Cons show ?case by simp
qed

lemma on_confirmed_step:
  assumes "lookup_charge cid s = Some c" "\<not> c_credited c" "\<forall>k. \<not> down env k"
  shows "\<exists>c'. lookup_charge cid (snd (on_confirmed env data c s)) = Some c' \<and> same_charge c c' \<and>
           credit_outcome s (snd (on_confirmed env data c s)) c c'"
proof (cases "confirmations_of (confirmedPmt (case d_payments data of None \<Rightarrow> [] | Some ps \<Rightarrow> ps)) c
                < c_confirm_threshold c")
  case True
  show ?thesis
    using assms True
    by (simp add: on_confirmed_def Let_def updateChargeStatus_def supabase_patch_deposit_charges_def
        lookup_charge_def find_patch same_charge_def credit_outcome_def)
next
  case False
  let ?pmt = "confirmedPmt (case d_payments data of None \<Rightarrow> [] | Some ps \<Rightarrow> ps)"
  show ?thesis
  proof (cases "creditAmount ?pmt c")
    case None
    then show ?thesis using assms False
      by (simp add: on_confirmed_def Let_def andThen_def supabase_rpc_upsert_balance_def
          same_charge_def credit_outcome_def)
  next
    case (Some d)
    show ?thesis
    proof (cases "balance_of s (c_user_id c) (c_asset c) + d < 0")
      case True
      then show ?thesis using assms False Some
        by (simp add: on_confirmed_def Let_def andThen_def supabase_rpc_upsert_balance_def
            same_charge_def upsert_balance_def balance_of_def credit_outcome_def)
    next
      case neg: False
      show ?thesis using assms False Some neg
        by (simp add: on_confirmed_def Let_def andThen_def ret_def supabase_rpc_upsert_balance_def
            upsert_balance_def balance_of_def supabase_post_transactions_def
            supabase_patch_deposit_charges_def auditLog_def supabase_get_users_by_id_def
            lookup_charge_def find_patch same_charge_def credit_outcome_def)
    qed
  qed
qed

lemma confirmed_handler_store:
  assumes "confirmed_for cid d" "lookup_charge cid s = Some c" "\<not> down (fst d) GetDepositCharges"
  shows "\<exists>data. snd (deposit_webhook_handler (fst d) (snd d) s) = snd (on_confirmed (fst d) data c s)"
proof -
  obtain data where d: "delivers (fst d) (snd d) ''charge:confirmed'' data" "d_id data = Some cid"
    using confirmed_for_delivers[of cid "fst d" "snd d"] assms(1) by auto
  have "snd (deposit_webhook_handler (fst d) (snd d) s) = snd (on_confirmed (fst d) data c s)"
    by (simp add: handler_delivers[OF d(1)] process_event_eq d(2) assms dispatch_def
        split: prod.splits sum.splits)
  then show ?thesis ..
qed

lemma run_uncredited:
  assumes "\<forall>d\<in>set ds. confirmed_for cid d \<and> (\<forall>k. \<not> down (fst d) k)"
    and "lookup_charge cid s = Some c" "\<not> c_credited c"
  shows "\<exists>c'. lookup_charge cid (run ds s) = Some c' \<and> same_charge c c' \<and>
           credit_outcome s (run ds s) c c'"
  using assms
proof (induction ds arbitrary: s c)
  case Nil
  then show ?case by (simp add: same_charge_def credit_outcome_def)
next
  case (Cons d ds)
  let ?s1 = "snd (deposit_webhook_handler (fst d) (snd d) s)"
  from Cons.prems obtain data where s1: "?s1 = snd (on_confirmed (fst d) data c s)"
    using confirmed_handler_store[of cid d s c] by auto
  from on_confirmed_step[of cid s c "fst d" data] Cons.prems s1
  obtain c1 where c1: "lookup_charge cid ?s1 = Some c1" "same_charge c c1" "credit_outcome s ?s1 c c1"
    by auto
  show ?case
  proof (cases "c_credited c1")
    case True
    have "run ds ?s1 = ?s1"
      using run_credited[of ds cid ?s1 c1] Cons.prems(1) c1(1) True by simp
    with c1 show ?thesis by auto
  next
    case False
    from Cons.IH[of ?s1 c1] Cons.prems(1) c1(1) False
    obtain c' where c': "lookup_charge cid (run ds ?s1) = Some c'" "same_charge c1 c'"
      "credit_outcome ?s1 (run ds ?s1) c1 c'"
      by auto
    from c1(3) False have same: "transactions ?s1 = transactions s" "balances ?s1 = balances s"
      by (simp_all add: credit_outcome_def)
    have bal: "balance_of ?s1 = balance_of s"
      using same(2) by (simp add: balance_of_def fun_eq_iff)
    have "credit_outcome s (run ds ?s1) c c'"
      using c'(3) c1(2) unfolding credit_outcome_def same_charge_def same bal by metis
    moreover have "same_charge c c'" using c1(2) c'(2) by (simp add: same_charge_def)
    ultimately show ?thesis using c'(1) by auto
  qed
qed

lemma on_confirmed_step_any:
  assumes "lookup_charge cid s = Some c" "\<not> c_credited c"
  shows "\<exists>c'. lookup_charge cid (snd (on_confirmed env data c s)) = Some c' \<and> same_charge c c' \<and>
           (c_credited c' \<longrightarrow> c_status c' = ''completed'')"
  using assms
  by (auto simp: on_confirmed_def Let_def andThen_def ret_def supabase_rpc_upsert_balance_def
            upsert_balance_def supabase_post_transactions_def updateChargeStatus_def
            supabase_patch_deposit_charges_def auditLog_def supabase_get_users_by_id_def
            lookup_charge_def find_patch same_charge_def split: option.splits)

lemma run_completed:
  assumes "\<forall>d\<in>set ds. confirmed_for cid d"
    and "lookup_charge cid s = Some c" "\<not> c_credited c"
  shows "\<exists>c'. lookup_charge cid (run ds s) = Some c' \<and> same_charge c c' \<and>
           (c_credited c' \<longrightarrow> c_status c' = ''completed'')"
  using assms
proof (induction ds arbitrary: s c)
  case Nil
  then show ?case by (simp add: same_charge_def)
next
  case (Cons d ds)
  let ?s1 = "snd (deposit_webhook_handler (fst d) (snd d) s)"
  have "\<exists>c1. lookup_charge cid ?s1 = Some c1 \<and> same_charge c c1 \<and>
              (c_credited c1 \<longrightarrow> c_status c1 = ''completed'')"
  proof (cases "down (fst d) GetDepositCharges")
    case True
    obtain data where d: "delivers (fst d) (snd d) ''charge:confirmed'' data"
      using confirmed_for_delivers[of cid "fst d" "snd d"] Cons.prems(1) by auto
    have "?s1 = s" by (simp add: handler_delivers[OF d] process_event_eq True)
    then show ?thesis using Cons.prems by (simp add: same_charge_def)
  next
    case False
    then obtain data where "?s1 = snd (on_confirmed (fst d) data c s)"
      using confirmed_handler_store[of cid d s c] Cons.prems by auto
    then show ?thesis using on_confirmed_step_any[of cid s c "fst d" data] Cons.prems by simp
  qed
  then obtain c1 where c1: "lookup_charge cid ?s1 = Some c1" "same_charge c c1"
      "c_credited c1 \<longrightarrow> c_status c1 = ''completed''" by auto
  show ?case
  proof (cases "c_credited c1")
    case True
    have "run ds ?s1 = ?s1"
      using run_credited[of ds cid ?s1 c1] Cons.prems(1) c1(1) True by simp
    with c1 show ?thesis by auto
  next
    case False
    from Cons.IH[of ?s1 c1] Cons.prems(1) c1(1) False
    obtain c' where "lookup_charge cid (run ds ?s1) = Some c'" "same_charge c1 c'"
      "c_credited c' \<longrightarrow> c_status c' = ''completed''"
      by auto
    with c1(2) show ?thesis by (auto simp: same_charge_def)
  qed
qed

lemma handler_found:
  assumes "delivers env event type data" "lookup_charge (provider_id data) s = Some c"
    "\<not> down env GetDepositCharges"
  shows "snd (deposit_webhook_handler env event s) = snd (dispatch env type data c s)"
  using assms(2,3)
  by (simp add: handler_delivers[OF assms(1)] process_event_eq provider_id_def
      split: prod.splits sum.splits)

lemma handler_lookup_down:
  assumes "delivers env event type data" "down env GetDepositCharges"
  shows "snd (deposit_webhook_handler env event s) = s"
  using assms(2) by (simp add: handler_delivers[OF assms(1)] process_event_eq)

lemma process_event_200:
  "\<exists>r s'. process_event env t d s = (Inr r, s') \<and> statusCode r = 200"
  by (simp add: process_event_eq split: option.splits prod.splits sum.splits)

lemma dispatch_created:
  assumes "lookup_charge cid s = Some c" "\<not> down env PatchDepositCharges"
  shows "lookup_charge cid (snd (dispatch env ''charge:created'' data c s)) =
           Some (c\<lparr>c_status := ''pending'', c_updated_at := now env\<rparr>) \<and>
         balances (snd (dispatch env ''charge:created'' data c s)) = balances s \<and>
         transactions (snd (dispatch env ''charge:created'' data c s)) = transactions s"
  using assms
  by (simp add: dispatch_def updateChargeStatus_def supabase_patch_deposit_charges_def
      lookup_charge_def find_patch)

lemma dispatch_pending:
  assumes "lookup_charge cid s = Some c" "\<not> down env PatchDepositCharges"
  shows "lookup_charge cid (snd (dispatch env ''charge:pending'' data c s)) =
           Some (c\<lparr>c_status := ''detected'', c_confirmations := 0,
                   c_network_tx := truthy_str (p_transaction_id (latestPayment (payments_of data))),
                   c_updated_at := now env\<rparr>) \<and>
         balances (snd (dispatch env ''charge:pending'' data c s)) = balances s \<and>
         transactions (snd (dispatch env ''charge:pending'' data c s)) = transactions s"
  using assms
  by (simp add: dispatch_def updateChargeStatus_def supabase_patch_deposit_charges_def
      supabase_get_users_by_id_def andThen_def ret_def Let_def payments_of_def
      lookup_charge_def find_patch)

lemma dispatch_count:
  assumes "lookup_charge cid s = Some c" "reported_count data \<noteq> Some 0"
  shows "\<exists>c'. lookup_charge cid (snd (dispatch env type data c s)) = Some c' \<and>
     (c_confirmations c' = c_confirmations c \<or>
      (type = ''charge:pending'' \<and> c_confirmations c' = 0) \<or>
      (type = ''charge:confirmed'' \<and> \<not> c_credited c \<and>
       c_confirmations c' = (case reported_count data of Some n \<Rightarrow> n | None \<Rightarrow> c_confirm_threshold c)))"
  using assms
  by (auto simp: dispatch_def on_confirmed_def Let_def andThen_def ret_def supabase_rpc_upsert_balance_def
            upsert_balance_def supabase_post_transactions_def updateChargeStatus_def
            supabase_patch_deposit_charges_def auditLog_def supabase_get_users_by_id_def
            lookup_charge_def find_patch reported_count_def payments_of_def confirmations_of_def truthy_num_def
            split: option.splits)

lemma dispatch_confirming:
  assumes "lookup_charge cid s = Some c" "\<not> down env PatchDepositCharges" "\<not> c_credited c"
    "reported_count data = Some n" "n \<noteq> 0" "n < c_confirm_threshold c"
  shows "\<exists>c'. lookup_charge cid (snd (dispatch env ''charge:confirmed'' data c s)) = Some c' \<and>
           c_confirmations c' = n \<and> c_status c' = ''confirming'' \<and> \<not> c_credited c'"
  using assms
  by (simp add: dispatch_def on_confirmed_def Let_def updateChargeStatus_def
      supabase_patch_deposit_charges_def lookup_charge_def find_patch reported_count_def
      payments_of_def confirmations_of_def truthy_num_def)

lemma dispatch_credit_omitted:
  assumes "lookup_charge cid s = Some c" "\<forall>k. \<not> down env k" "\<not> c_credited c"
    "reported_count data = None"
    "creditAmount (confirmedPmt (payments_of data)) c = Some d"
    "0 \<le> balance_of s (c_user_id c) (c_asset c) + d"
  shows "\<exists>c'. lookup_charge cid (snd (dispatch env ''charge:confirmed'' data c s)) = Some c' \<and>
           c_confirmations c' = c_confirm_threshold c \<and> c_credited c'"
  using assms
  by (simp add: dispatch_def on_confirmed_def Let_def andThen_def ret_def
      supabase_rpc_upsert_balance_def upsert_balance_def balance_of_def
      supabase_post_transactions_def supabase_patch_deposit_charges_def auditLog_def
      supabase_get_users_by_id_def lookup_charge_def find_patch reported_count_def
      payments_of_def confirmations_of_def truthy_num_def)

lemma confirmed_for_data:
  assumes "confirmed_for cid d"
  shows "\<exists>data. event_data d = Some data \<and> delivers (fst d) (snd d) ''charge:confirmed'' data \<and>
           d_id data = Some cid"
  using assms unfolding confirmed_for_def delivers_def event_data_def
  by (auto split: parsed_body.splits option.splits)

lemma on_confirmed_credits:
  assumes "lookup_charge cid s = Some c" "\<not> c_credited c" "\<forall>k. \<not> down env k"
    and "would_credit data c s"
  shows "\<exists>c'. lookup_charge cid (snd (on_confirmed env data c s)) = Some c' \<and> c_credited c'"
  using assms
  by (auto simp: would_credit_def payments_of_def on_confirmed_def Let_def andThen_def ret_def
      supabase_rpc_upsert_balance_def upsert_balance_def balance_of_def
      supabase_post_transactions_def supabase_patch_deposit_charges_def auditLog_def
      supabase_get_users_by_id_def lookup_charge_def find_patch split: option.splits)

lemma would_credit_invariant:
  "same_charge c c1 \<Longrightarrow> balances s1 = balances s \<Longrightarrow> would_credit data c1 s1 = would_credit data c s"
proof -
  assume sc: "same_charge c c1" and b: "balances s1 = balances s"
  have "confirmations_of p c1 = confirmations_of p c" for p
    using sc by (simp add: same_charge_def confirmations_of_def split: option.splits)
  moreover have "creditAmount p c1 = creditAmount p c" for p
    using sc by (simp add: same_charge_def creditAmount_def cryptoAmount_def split: option.splits)
  moreover have "balance_of s1 (c_user_id c1) (c_asset c1) = balance_of s (c_user_id c) (c_asset c)"
    using sc b by (simp add: same_charge_def balance_of_def split: option.splits)
  moreover have "c_confirm_threshold c1 = c_confirm_threshold c"
    using sc by (simp add: same_charge_def)
  ultimately show ?thesis by (simp add: would_credit_def split: option.splits)
qed

lemma confirmed_handler_data:
  assumes "confirmed_for cid d" "lookup_charge cid s = Some c" "\<not> down (fst d) GetDepositCharges"
  shows "\<exists>data. event_data d = Some data \<and>
           snd (deposit_webhook_handler (fst d) (snd d) s) = snd (on_confirmed (fst d) data c s)"
proof -
  obtain data where d: "event_data d = Some data"
    "delivers (fst d) (snd d) ''charge:confirmed'' data" "d_id data = Some cid"
    using confirmed_for_data[OF assms(1)] by auto
  have "snd (deposit_webhook_handler (fst d) (snd d) s) = snd (on_confirmed (fst d) data c s)"
    by (simp add: handler_delivers[OF d(2)] process_event_eq d(3) assms dispatch_def
        split: prod.splits sum.splits)
  with d(1) show ?thesis by blast
qed

lemma run_credits:
  assumes "\<forall>d\<in>set ds. confirmed_for cid d \<and> (\<forall>k. \<not> down (fst d) k)"
    and "lookup_charge cid s = Some c" "\<not> c_credited c"
    and "\<exists>d\<in>set ds. creditable d c s"
  shows "\<exists>c'. lookup_charge cid (run ds s) = Some c' \<and> c_credited c'"
  using assms
proof (induction ds arbitrary: s c)
  case Nil
  then show ?case by simp
next
  case (Cons d ds)
  let ?s1 = "snd (deposit_webhook_handler (fst d) (snd d) s)"
  from Cons.prems obtain data where dat: "event_data d = Some data"
    and s1: "?s1 = snd (on_confirmed (fst d) data c s)"
    using confirmed_handler_data[of cid d s c] by auto
  from on_confirmed_step[of cid s c "fst d" data] Cons.prems s1
  obtain c1 where c1: "lookup_charge cid ?s1 = Some c1" "same_charge c c1" "credit_outcome s ?s1 c c1"
    by auto
  show ?case
  proof (cases "c_credited c1")
    case True
    have "run ds ?s1 = ?s1"
      using run_credited[of ds cid ?s1 c1] Cons.prems(1) c1(1) True by simp
    with c1 True show ?thesis by auto
  next
    case False
    have nothead: "\<not> creditable d c s"
    proof
      assume "creditable d c s"
      with dat have "would_credit data c s" by (simp add: creditable_def)
      from on_confirmed_credits[OF Cons.prems(2,3) _ this, of "fst d"] Cons.prems(1) s1 c1(1) False
      show False by auto
    qed
    from c1(3) False have same: "balances ?s1 = balances s"
      by (simp add: credit_outcome_def)
    from Cons.prems(4) nothead obtain d' where d': "d' \<in> set ds" "creditable d' c s" by auto
    then have "creditable d' c1 ?s1"
      using would_credit_invariant[OF c1(2) same]
      by (simp add: creditable_def split: option.splits)
    with d'(1) have "\<exists>d\<in>set ds. creditable d c1 ?s1" by blast
    from Cons.IH[OF _ c1(1) False this] Cons.prems(1) show ?thesis by simp
  qed
qed

subsection \<open>C1: the credit of a confirmed deposit is applied once\<close>

text \<open>
  What the guard on \<^verbatim>\<open>credited\<close> gives. Take any store, any charge of it and any sequence
  of signed \<^verbatim>\<open>charge:confirmed\<close> events for that charge, handled one after the other,
  whatever their payments. Once the charge is credited, every later event leaves the
  whole store as it is, whichever store calls fail. From a charge that is not yet
  credited, a charge that ends credited ends with status \<^verbatim>\<open>completed\<close>. When no store
  call fails during the run, the credit is applied exactly once: if some event reaches
  the threshold with an amount the balance primitive accepts, the charge ends credited;
  a charge that ends credited has received exactly one deposit row and exactly one
  balance delta, of the amount of that row; and a charge that does not end credited has
  received none.
\<close>

lemma confirmed_credit_without_faults:
  assumes "\<forall>d\<in>set ds. confirmed_for cid d" and "lookup_charge cid s = Some c"
  shows "(c_credited c \<longrightarrow> run ds s = s) \<and>
         (\<not> c_credited c \<longrightarrow>
            (\<exists>c'. lookup_charge cid (run ds s) = Some c' \<and>
                  (c_credited c' \<longrightarrow> c_status c' = ''completed'') \<and>
                  ((\<forall>d\<in>set ds. \<forall>k. \<not> down (fst d) k) \<longrightarrow>
                     credit_outcome s (run ds s) c c' \<and>
                     ((\<exists>d\<in>set ds. creditable d c s) \<longrightarrow> c_credited c'))))"
proof (intro conjI impI)
  assume "c_credited c"
  with assms show "run ds s = s" by (rule run_credited)
next
  assume nc: "\<not> c_credited c"
  from run_completed[OF assms nc] obtain c' where
    c': "lookup_charge cid (run ds s) = Some c'" "c_credited c' \<longrightarrow> c_status c' = ''completed''"
    by auto
  have "credit_outcome s (run ds s) c c' \<and> ((\<exists>d\<in>set ds. creditable d c s) \<longrightarrow> c_credited c')"
    if nf: "\<forall>d\<in>set ds. \<forall>k. \<not> down (fst d) k"
  proof -
    from assms(1) nf have all: "\<forall>d\<in>set ds. confirmed_for cid d \<and> (\<forall>k. \<not> down (fst d) k)"
      by simp
    from run_uncredited[OF all assms(2) nc] c'(1)
    have "credit_outcome s (run ds s) c c'" by auto
    moreover have "c_credited c'" if "\<exists>d\<in>set ds. creditable d c s"
      using run_credits[OF all assms(2) nc that] c'(1) by auto
    ultimately show ?thesis by blast
  qed
  with c' show "\<exists>c'. lookup_charge cid (run ds s) = Some c' \<and>
                  (c_credited c' \<longrightarrow> c_status c' = ''completed'') \<and>
                  ((\<forall>d\<in>set ds. \<forall>k. \<not> down (fst d) k) \<longrightarrow>
                     credit_outcome s (run ds s) c c' \<and>
                     ((\<exists>d\<in>set ds. creditable d c s) \<longrightarrow> c_credited c'))"
    by blast
qed

text \<open>
  The scenario of the specification: \<^verbatim>\<open>confirmed\<close> with 1 confirmation, then with 3, then
  the duplicate. The charge ends credited and completed, with one deposit row.
\<close>

lemma confirmed_credit_without_faults_example:
  "confirmed_for ''cb-1'' (demo_env, demo_request ''confirmed-1'') \<and>
   confirmed_for ''cb-1'' (demo_env, demo_request ''confirmed-3'') \<and>
   lookup_charge ''cb-1'' demo_store = Some demo_charge \<and>
   \<not> c_credited demo_charge \<and>
   creditable (demo_env, demo_request ''confirmed-3'') demo_charge demo_store \<and>
   (\<exists>c'. lookup_charge ''cb-1''
           (run [(demo_env, demo_request ''confirmed-1''), (demo_env, demo_request ''confirmed-3''),
                 (demo_env, demo_request ''confirmed-3'')] demo_store) = Some c' \<and>
         c_credited c' \<and> c_status c' = ''completed'' \<and>
         credit_outcome demo_store
           (run [(demo_env, demo_request ''confirmed-1''), (demo_env, demo_request ''confirmed-3''),
                 (demo_env, demo_request ''confirmed-3'')] demo_store) demo_charge c')"
proof -
  let ?ds = "[(demo_env, demo_request ''confirmed-1''), (demo_env, demo_request ''confirmed-3''),
              (demo_env, demo_request ''confirmed-3'')]"
  have c1: "confirmed_for ''cb-1'' (demo_env, demo_request ''confirmed-1'')"
    by (simp add: confirmed_for_def signed_def signature_def rawBody_def demo_env_def
        demo_request_def demo_parse_def demo_data_def truthy_str_def)
  have c3: "confirmed_for ''cb-1'' (demo_env, demo_request ''confirmed-3'')"
    by (simp add: confirmed_for_def signed_def signature_def rawBody_def demo_env_def
        demo_request_def demo_parse_def demo_data_def truthy_str_def)
  have lk: "lookup_charge ''cb-1'' demo_store = Some demo_charge"
    by (simp add: lookup_charge_def demo_store_def demo_charge_def)
  have nc: "\<not> c_credited demo_charge" by (simp add: demo_charge_def)
  have up: "\<forall>d\<in>set ?ds. \<forall>k. \<not> down (fst d) k" by (simp add: demo_env_def)
  have all: "\<forall>d\<in>set ?ds. confirmed_for ''cb-1'' d" using c1 c3 by simp
  have cr: "creditable (demo_env, demo_request ''confirmed-3'') demo_charge demo_store"
    by (simp add: creditable_def event_data_def would_credit_def payments_of_def rawBody_def
        confirmedPmt_def confirmations_of_def creditAmount_def cryptoAmount_def or_else_def
        truthy_num_def balance_of_def demo_defs)
  then have ex: "\<exists>d\<in>set ?ds. creditable d demo_charge demo_store" by simp
  from confirmed_credit_without_faults[OF all lk] nc up ex
  obtain c' where "lookup_charge ''cb-1'' (run ?ds demo_store) = Some c'"
      "c_credited c' \<longrightarrow> c_status c' = ''completed''"
      "credit_outcome demo_store (run ?ds demo_store) demo_charge c'" "c_credited c'"
    by blast
  with c1 c3 lk nc cr show ?thesis by blast
qed

text \<open>
  C1 (the code departs from the claim). The claim: for every sequence of
  \<^verbatim>\<open>charge:confirmed\<close> events delivered one after the other for a charge, the balance
  credit is applied exactly once. The code applies the balance delta, inserts the
  Transaction row and marks the charge credited in three separate store calls, in this
  order, and \<^verbatim>\<open>credited\<close> is the only guard (its comments: \<^verbatim>\<open>Idempotency guard - never
  double-credit\<close> and \<^verbatim>\<open>Mark charge as credited (idempotency)\<close>). Here the first delivery
  of \<^verbatim>\<open>charge:confirmed\<close> with 3 confirmations and 0.05 BTC meets a failing patch of
  \<^verbatim>\<open>deposit_charges\<close>: the balance has the delta and the row is inserted, the charge is
  still uncredited and pending, and the handler answers 200. The same event delivered
  again, with the store working, passes the guard: the balance ends at 0.10 BTC with two
  deposit rows of 0.05 BTC for the one payment, and only then is the charge credited
  and completed.
\<close>

theorem mark_credited_failure_credits_twice:
  "confirmed_for ''cb-1'' (demo_env_patch_outage, demo_request ''confirmed-3'') \<and>
   confirmed_for ''cb-1'' (demo_env, demo_request ''confirmed-3'') \<and>
   lookup_charge ''cb-1'' demo_store = Some demo_charge \<and>
   \<not> c_credited demo_charge \<and>
   balances demo_store (1, ''BTC'') = None \<and>
   deposit_webhook_handler demo_env_patch_outage (demo_request ''confirmed-3'') demo_store =
     (Inr \<lparr>statusCode = 200, body = ReceivedError StoreFailure\<rparr>,
      run [(demo_env_patch_outage, demo_request ''confirmed-3'')] demo_store) \<and>
   balances (run [(demo_env_patch_outage, demo_request ''confirmed-3'')] demo_store) (1, ''BTC'') =
     Some 5000000 \<and>
   map t_amount (transactions (run [(demo_env_patch_outage, demo_request ''confirmed-3'')] demo_store)) =
     [5000000] \<and>
   map (\<lambda>c. (c_credited c, c_status c))
     (deposit_charges (run [(demo_env_patch_outage, demo_request ''confirmed-3'')] demo_store)) =
     [(False, ''pending'')] \<and>
   balances (run [(demo_env_patch_outage, demo_request ''confirmed-3''),
                  (demo_env, demo_request ''confirmed-3'')] demo_store) (1, ''BTC'') =
     Some 10000000 \<and>
   map t_amount (transactions (run [(demo_env_patch_outage, demo_request ''confirmed-3''),
                  (demo_env, demo_request ''confirmed-3'')] demo_store)) =
     [5000000, 5000000] \<and>
   map (\<lambda>c. (c_credited c, c_status c))
     (deposit_charges (run [(demo_env_patch_outage, demo_request ''confirmed-3''),
                  (demo_env, demo_request ''confirmed-3'')] demo_store)) =
     [(True, ''completed'')]"
  by (simp add: confirmed_for_def signed_def signature_def rawBody_def lookup_charge_def
      demo_env_patch_outage_def demo_defs webhook_defs)

text \<open>
  The same happens when it is the insert into \<^verbatim>\<open>transactions\<close> that fails after the balance
  delta was applied: the charge is left uncredited, and the redelivered event applies
  the delta a second time, with a single deposit row for the two deltas.
\<close>

lemma partial_failure_credits_twice:
  "balances (run [(demo_env_outage, demo_request ''confirmed-3''),
                  (demo_env, demo_request ''confirmed-3'')] demo_store) (1, ''BTC'') = Some 10000000 \<and>
   length (transactions (run [(demo_env_outage, demo_request ''confirmed-3''),
                  (demo_env, demo_request ''confirmed-3'')] demo_store)) = 1"
  by (simp add: demo_env_outage_def demo_defs webhook_defs)

text \<open>
  The guard looks at \<^verbatim>\<open>credited\<close> only. A credited charge whose status a later
  \<^verbatim>\<open>charge:created\<close> has set back to \<^verbatim>\<open>pending\<close> is left as it is by a redelivered
  \<^verbatim>\<open>charge:confirmed\<close>: the credit stays applied once, and the status stays \<^verbatim>\<open>pending\<close>.
\<close>

lemma credited_charge_stays_pending:
  "balances (run [(demo_env, demo_request ''confirmed-3''), (demo_env, demo_request ''created''),
                  (demo_env, demo_request ''confirmed-3'')] demo_store) (1, ''BTC'') = Some 5000000 \<and>
   map t_amount (transactions (run [(demo_env, demo_request ''confirmed-3''),
                  (demo_env, demo_request ''created''),
                  (demo_env, demo_request ''confirmed-3'')] demo_store)) = [5000000] \<and>
   map (\<lambda>c. (c_credited c, c_status c))
     (deposit_charges (run [(demo_env, demo_request ''confirmed-3''),
                  (demo_env, demo_request ''created''),
                  (demo_env, demo_request ''confirmed-3'')] demo_store)) = [(True, ''pending'')]"
  by (simp add: demo_defs webhook_defs)

subsection \<open>C2: a confirmed event below the threshold\<close>

text \<open>
  C2 (the code departs from the claim). The claim: a \<^verbatim>\<open>charge:confirmed\<close> event that
  reports a confirmation count strictly below the threshold of an uncredited charge
  never credits, also when the count is 0. The code: a reported count of 0 is falsy in
  \<^verbatim>\<open>confirmations || charge.confirm_threshold\<close>, so the threshold itself is taken, the
  test \<^verbatim>\<open>confirmations < threshold\<close> fails and the charge is credited. Here the charge
  has threshold 3, the event reports 0 confirmations and 0.05 BTC: the charge ends
  credited with 3 stored confirmations, the balance holds 5000000 units and one
  Transaction row exists.
\<close>

theorem zero_count_is_credited:
  "p_confirmations (confirmedPmt (case d_payments (demo_data (Some 0)) of None \<Rightarrow> [] | Some ps \<Rightarrow> ps)) = Some 0 \<and>
   c_confirm_threshold demo_charge = 3 \<and> \<not> c_credited demo_charge \<and>
   fst (deposit_webhook_handler demo_env (demo_request ''confirmed-0'') demo_store) =
     Inr \<lparr>statusCode = 200, body = Received\<rparr> \<and>
   map c_credited (deposit_charges (snd (deposit_webhook_handler demo_env (demo_request ''confirmed-0'') demo_store))) = [True] \<and>
   map c_confirmations (deposit_charges (snd (deposit_webhook_handler demo_env (demo_request ''confirmed-0'') demo_store))) = [3] \<and>
   balances (snd (deposit_webhook_handler demo_env (demo_request ''confirmed-0'') demo_store)) (1, ''BTC'') = Some 5000000 \<and>
   length (transactions (snd (deposit_webhook_handler demo_env (demo_request ''confirmed-0'') demo_store))) = 1"
  by (simp add: demo_defs webhook_defs)

text \<open>
  Where the reported count is not 0 the code does what C2 says: the event only sets the
  status to \<^verbatim>\<open>confirming\<close> and stores the count.
\<close>

lemma below_threshold_not_credited:
  assumes "delivers env event ''charge:confirmed'' data"
    and "lookup_charge (provider_id data) s = Some c" and "\<not> c_credited c"
    and "\<not> down env GetDepositCharges" and "\<not> down env PatchDepositCharges"
    and "reported_count data = Some n" and "n \<noteq> 0" and "n < c_confirm_threshold c"
  shows "\<exists>c'. lookup_charge (provider_id data) (snd (deposit_webhook_handler env event s)) = Some c' \<and>
           c_confirmations c' = n \<and> c_status c' = ''confirming'' \<and> \<not> c_credited c' \<and>
           balances (snd (deposit_webhook_handler env event s)) = balances s \<and>
           transactions (snd (deposit_webhook_handler env event s)) = transactions s"
proof -
  have s': "snd (deposit_webhook_handler env event s) = snd (dispatch env ''charge:confirmed'' data c s)"
    by (rule handler_found[OF assms(1,2,4)])
  have "balances (snd (dispatch env ''charge:confirmed'' data c s)) = balances s \<and>
        transactions (snd (dispatch env ''charge:confirmed'' data c s)) = transactions s"
    using assms(3,5,6,7,8)
    by (simp add: dispatch_def on_confirmed_def Let_def updateChargeStatus_def
        supabase_patch_deposit_charges_def reported_count_def payments_of_def
        confirmations_of_def truthy_num_def)
  with dispatch_confirming[OF assms(2,5,3,6,7,8)] show ?thesis
    unfolding s' by auto
qed

subsection \<open>C4: stale \<^verbatim>\<open>created\<close> and \<^verbatim>\<open>pending\<close> events\<close>

text \<open>
  C4, as the code has it. The switch of the webhook has no precondition on the status
  of the charge: a signed \<^verbatim>\<open>charge:created\<close> event sets the status to \<^verbatim>\<open>pending\<close>, and a
  signed \<^verbatim>\<open>charge:pending\<close> event sets it to \<^verbatim>\<open>detected\<close> with confirmations 0 and the
  transaction hash of the last payment, whatever the status was (also \<^verbatim>\<open>completed\<close>,
  \<^verbatim>\<open>failed\<close>, \<^verbatim>\<open>underpaid\<close> or \<^verbatim>\<open>resolved\<close>), when the lookup and the patch succeed. Every
  other column of the charge, the \<^verbatim>\<open>credited\<close> flag among them, the balances and the
  transactions stay as they are.
\<close>

theorem created_and_pending_overwrite_status:
  assumes "delivers env event type data" and "lookup_charge (provider_id data) s = Some c"
    and "\<not> down env GetDepositCharges" and "\<not> down env PatchDepositCharges"
  shows "(type = ''charge:created'' \<longrightarrow>
            lookup_charge (provider_id data) (snd (deposit_webhook_handler env event s)) =
              Some (c\<lparr>c_status := ''pending'', c_updated_at := now env\<rparr>)) \<and>
         (type = ''charge:pending'' \<longrightarrow>
            lookup_charge (provider_id data) (snd (deposit_webhook_handler env event s)) =
              Some (c\<lparr>c_status := ''detected'', c_confirmations := 0,
                      c_network_tx := truthy_str (p_transaction_id (latestPayment (payments_of data))),
                      c_updated_at := now env\<rparr>)) \<and>
         (type = ''charge:created'' \<or> type = ''charge:pending'' \<longrightarrow>
            balances (snd (deposit_webhook_handler env event s)) = balances s \<and>
            transactions (snd (deposit_webhook_handler env event s)) = transactions s)"
  using dispatch_created[OF assms(2,4), of data] dispatch_pending[OF assms(2,4), of data]
  by (auto simp: handler_found[OF assms(1,2,3)])

text \<open>
  A credited, completed charge that then receives \<^verbatim>\<open>charge:created\<close>: its status becomes
  \<^verbatim>\<open>pending\<close>, everything else stays.
\<close>

theorem created_and_pending_overwrite_status_witness:
  "delivers demo_env (demo_request ''created'') ''charge:created'' (demo_data None) \<and>
   lookup_charge (provider_id (demo_data None)) (run [(demo_env, demo_request ''confirmed-3'')] demo_store) =
     Some (demo_charge\<lparr>c_status := ''completed'', c_credited := True, c_confirmations := 3,
            c_network_tx := Some ''0xabc'', c_transaction_id := Some 1, c_updated_at := ''t1''\<rparr>) \<and>
   \<not> down demo_env GetDepositCharges \<and> \<not> down demo_env PatchDepositCharges \<and>
   lookup_charge (provider_id (demo_data None))
     (snd (deposit_webhook_handler demo_env (demo_request ''created'')
        (run [(demo_env, demo_request ''confirmed-3'')] demo_store))) =
     Some (demo_charge\<lparr>c_status := ''pending'', c_credited := True, c_confirmations := 3,
            c_network_tx := Some ''0xabc'', c_transaction_id := Some 1, c_updated_at := ''t1''\<rparr>)"
proof -
  let ?s = "run [(demo_env, demo_request ''confirmed-3'')] demo_store"
  let ?c = "demo_charge\<lparr>c_status := ''completed'', c_credited := True, c_confirmations := 3,
            c_network_tx := Some ''0xabc'', c_transaction_id := Some 1, c_updated_at := ''t1''\<rparr>"
  have d: "delivers demo_env (demo_request ''created'') ''charge:created'' (demo_data None)"
    by (simp add: delivers_def signed_def signature_def rawBody_def demo_defs truthy_str_def)
  have l: "lookup_charge (provider_id (demo_data None)) ?s = Some ?c"
    by (simp add: lookup_charge_def provider_id_def demo_defs webhook_defs)
  have g: "\<not> down demo_env GetDepositCharges" and p: "\<not> down demo_env PatchDepositCharges"
    by (simp_all add: demo_env_def)
  have n: "now demo_env = ''t1''" by (simp add: demo_env_def)
  from created_and_pending_overwrite_status[OF d l g p] n
  have "lookup_charge (provider_id (demo_data None))
          (snd (deposit_webhook_handler demo_env (demo_request ''created'') ?s)) =
        Some (?c\<lparr>c_status := ''pending'', c_updated_at := ''t1''\<rparr>)"
    by simp
  with d l g p show ?thesis by simp
qed

text \<open>
  C4 as stated fails: after the credit the status is \<^verbatim>\<open>completed\<close>; a late
  \<^verbatim>\<open>charge:created\<close> moves it to \<^verbatim>\<open>pending\<close> and a late \<^verbatim>\<open>charge:pending\<close> to \<^verbatim>\<open>detected\<close>.
\<close>

theorem completed_charge_regresses:
  "map c_status (deposit_charges (run [(demo_env, demo_request ''confirmed-3'')] demo_store)) = [''completed''] \<and>
   map c_status (deposit_charges (run [(demo_env, demo_request ''confirmed-3''), (demo_env, demo_request ''created'')] demo_store)) = [''pending''] \<and>
   map c_status (deposit_charges (run [(demo_env, demo_request ''confirmed-3''), (demo_env, demo_request ''pending'')] demo_store)) = [''detected'']"
  by (simp add: demo_defs webhook_defs)

subsection \<open>C5: a claimed signature of another length\<close>

text \<open>
  The comparison \<^verbatim>\<open>crypto.timingSafeEqual\<close> throws on buffers of different length, and the
  webhook calls it outside every \<^verbatim>\<open>try\<close>: a header whose length is not that of the
  digest makes the handler throw, with the store untouched; a header of the right
  length and the wrong content is answered with 401.
\<close>

lemma wrong_length_signature:
  "httpMethod event = ''POST'' \<Longrightarrow> truthy_str (WEBHOOK_SECRET env) = Some secret \<Longrightarrow>
   length (signature event) \<noteq> length (hmac_sha256_hex env secret (rawBody event)) \<Longrightarrow>
   deposit_webhook_handler env event s = (Inl RangeError, s)"
  by (simp add: deposit_webhook_handler_def signature_def rawBody_def timingSafeEqual_def throw_def Let_def)

lemma same_length_wrong_signature:
  "httpMethod event = ''POST'' \<Longrightarrow> truthy_str (WEBHOOK_SECRET env) = Some secret \<Longrightarrow>
   length (signature event) = length (hmac_sha256_hex env secret (rawBody event)) \<Longrightarrow>
   signature event \<noteq> hmac_sha256_hex env secret (rawBody event) \<Longrightarrow>
   deposit_webhook_handler env event s = (Inr \<lparr>statusCode = 401, body = Plain ''Invalid signature''\<rparr>, s)"
  by (simp add: deposit_webhook_handler_def signature_def rawBody_def timingSafeEqual_def ret_def Let_def)

text \<open>
  C5 (the code departs from the claim). The claim: every request whose signature header
  is not the digest of the body, of any length, also empty, is answered with 401. The
  code: a request without the header (the empty signature) makes the handler throw a
  \<^verbatim>\<open>RangeError\<close> instead of answering 401. The store is untouched, as the claim says.
\<close>

theorem short_signature_throws:
  "deposit_webhook_handler demo_env
     \<lparr>httpMethod = ''POST'', x_cc_webhook_signature = None, rawBody_opt = Some ''confirmed-3''\<rparr> demo_store
   = (Inl RangeError, demo_store)"
  by (simp add: demo_defs webhook_defs)

subsection \<open>C6: the status codes of a signed request\<close>

text \<open>
  C6, as the code has it. A signed request whose body does not parse to \<^verbatim>\<open>null\<close> is
  answered with 200 or 400, and never lets an exception escape, whichever store calls
  fail. It is answered with 400 exactly when the body is not JSON or the parsed body
  lacks a non-empty \<^verbatim>\<open>event.type\<close> or lacks \<^verbatim>\<open>event.data\<close>; in every other case, also when
  the lookup or the dispatch throws, with 200.
\<close>

theorem signed_response_codes:
  assumes "signed env event" and "JSON_parse env (rawBody event) \<noteq> JsonNull"
  shows "\<exists>r s'. deposit_webhook_handler env event s = (Inr r, s') \<and>
           (statusCode r = 200 \<or> statusCode r = 400) \<and>
           (statusCode r = 400 \<longleftrightarrow>
              JSON_parse env (rawBody event) = Unparsable \<or> event_missing (JSON_parse env (rawBody event)))"
proof (cases "JSON_parse env (rawBody event)")
  case Unparsable
  with assms(1) show ?thesis
    by (auto simp: signed_def signature_def rawBody_def deposit_webhook_handler_def
        timingSafeEqual_def ret_def Let_def event_missing_def split: option.splits)
next
  case JsonNull
  with assms(2) show ?thesis by simp
next
  case (Json ev)
  show ?thesis
  proof (cases "event_missing (Json ev)")
    case True
    with Json assms(1) show ?thesis
      by (auto simp: signed_def signature_def rawBody_def deposit_webhook_handler_def
          timingSafeEqual_def ret_def Let_def event_missing_def split: option.splits)
  next
    case False
    then obtain e t d where e: "ev = Some e" "truthy_str (e_type e) = Some t" "e_data e = Some d"
      by (auto simp: event_missing_def split: option.splits)
    have "deposit_webhook_handler env event s = process_event env t d s"
      using Json assms(1) e
      by (auto simp: signed_def signature_def rawBody_def deposit_webhook_handler_def
          timingSafeEqual_def Let_def split: option.splits)
    with process_event_200[of env t d s] False Json show ?thesis by auto
  qed
qed

theorem signed_response_codes_witness:
  "signed demo_env (demo_request ''confirmed-3'') \<and>
   JSON_parse demo_env (rawBody (demo_request ''confirmed-3'')) \<noteq> JsonNull \<and>
   (\<exists>r s'. deposit_webhook_handler demo_env (demo_request ''confirmed-3'') demo_store = (Inr r, s') \<and>
           statusCode r = 200)"
proof -
  have sg: "signed demo_env (demo_request ''confirmed-3'')"
    by (simp add: signed_def signature_def rawBody_def demo_defs truthy_str_def)
  have nn: "JSON_parse demo_env (rawBody (demo_request ''confirmed-3'')) \<noteq> JsonNull"
    by (simp add: rawBody_def demo_defs)
  have ok: "JSON_parse demo_env (rawBody (demo_request ''confirmed-3'')) \<noteq> Unparsable \<and>
            \<not> event_missing (JSON_parse demo_env (rawBody (demo_request ''confirmed-3'')))"
    by (simp add: rawBody_def demo_defs event_missing_def truthy_str_def)
  from signed_response_codes[OF sg nn, of demo_store] ok
  have "\<exists>r s'. deposit_webhook_handler demo_env (demo_request ''confirmed-3'') demo_store = (Inr r, s') \<and>
           statusCode r = 200"
    by blast
  with sg nn show ?thesis by blast
qed

text \<open>
  C6 as stated fails: the signed body \<^verbatim>\<open>{}\<close> parses, and is answered with 400.
\<close>

theorem empty_object_is_rejected:
  "signed demo_env (demo_request ''{}'') \<and>
   JSON_parse demo_env (rawBody (demo_request ''{}'')) = Json None \<and>
   deposit_webhook_handler demo_env (demo_request ''{}'') demo_store =
     (Inr \<lparr>statusCode = 400, body = Plain ''Missing event type or data''\<rparr>, demo_store)"
  by (simp add: signed_def signature_def rawBody_def demo_defs webhook_defs)

subsection \<open>C8: the stored confirmation count\<close>

text \<open>
  C8, as the code has it. For a signed event on a stored charge whose payload does not
  report the count 0, the stored count afterwards is the old one, or 0 written by
  \<^verbatim>\<open>charge:pending\<close>, or, written by \<^verbatim>\<open>charge:confirmed\<close> on an uncredited charge, the
  reported count, and the threshold of the charge when the payload omits the count.
  These writes happen: when the lookup and the patch succeed, \<^verbatim>\<open>charge:pending\<close> stores
  0 and a \<^verbatim>\<open>charge:confirmed\<close> that reports a count below the threshold stores that count,
  whatever count was stored before; and a \<^verbatim>\<open>charge:confirmed\<close> without a count that
  credits stores the threshold.
\<close>

theorem stored_confirmation_count:
  assumes "delivers env event type data" and "lookup_charge (provider_id data) s = Some c"
    and "reported_count data \<noteq> Some 0"
  shows "\<exists>c'. lookup_charge (provider_id data) (snd (deposit_webhook_handler env event s)) = Some c' \<and>
     (c_confirmations c' = c_confirmations c \<or>
      (type = ''charge:pending'' \<and> c_confirmations c' = 0) \<or>
      (type = ''charge:confirmed'' \<and> \<not> c_credited c \<and>
       c_confirmations c' =
         (case reported_count data of Some n \<Rightarrow> n | None \<Rightarrow> c_confirm_threshold c))) \<and>
     (\<not> down env GetDepositCharges \<and> \<not> down env PatchDepositCharges \<and>
      type = ''charge:pending'' \<longrightarrow> c_confirmations c' = 0) \<and>
     (\<not> down env GetDepositCharges \<and> \<not> down env PatchDepositCharges \<and>
      type = ''charge:confirmed'' \<and> \<not> c_credited c \<longrightarrow>
        (\<forall>n. reported_count data = Some n \<and> n < c_confirm_threshold c \<longrightarrow> c_confirmations c' = n)) \<and>
     ((\<forall>k. \<not> down env k) \<and> type = ''charge:confirmed'' \<and> \<not> c_credited c \<and>
      reported_count data = None \<and>
      (\<exists>d. creditAmount (confirmedPmt (payments_of data)) c = Some d \<and>
           0 \<le> balance_of s (c_user_id c) (c_asset c) + d) \<longrightarrow>
        c_confirmations c' = c_confirm_threshold c)"
proof (cases "down env GetDepositCharges")
  case True
  with handler_lookup_down[OF assms(1) True, of s] assms(2) show ?thesis by auto
next
  case False
  let ?s' = "snd (dispatch env type data c s)"
  have s': "snd (deposit_webhook_handler env event s) = ?s'"
    by (rule handler_found[OF assms(1,2) False])
  from dispatch_count[OF assms(2,3), of env type] obtain c' where
    c': "lookup_charge (provider_id data) ?s' = Some c'"
    "c_confirmations c' = c_confirmations c \<or>
      (type = ''charge:pending'' \<and> c_confirmations c' = 0) \<or>
      (type = ''charge:confirmed'' \<and> \<not> c_credited c \<and>
       c_confirmations c' =
         (case reported_count data of Some n \<Rightarrow> n | None \<Rightarrow> c_confirm_threshold c))"
    by blast
  have p: "c_confirmations c' = 0"
    if "\<not> down env PatchDepositCharges" "type = ''charge:pending''"
    using dispatch_pending[OF assms(2) that(1), of data] c'(1) that(2) by auto
  have q: "c_confirmations c' = n"
    if "\<not> down env PatchDepositCharges" "type = ''charge:confirmed''" "\<not> c_credited c"
      "reported_count data = Some n" "n < c_confirm_threshold c" for n
  proof -
    from that(4) assms(3) have "n \<noteq> 0" by auto
    from dispatch_confirming[OF assms(2) that(1) that(3) that(4) this that(5)] c'(1) that(2)
    show ?thesis by auto
  qed
  have r: "c_confirmations c' = c_confirm_threshold c"
    if "\<forall>k. \<not> down env k" "type = ''charge:confirmed''" "\<not> c_credited c"
      "reported_count data = None"
      "creditAmount (confirmedPmt (payments_of data)) c = Some d"
      "0 \<le> balance_of s (c_user_id c) (c_asset c) + d" for d
    using dispatch_credit_omitted[OF assms(2) that(1) that(3) that(4) that(5) that(6)] c'(1) that(2)
    by auto
  show ?thesis
    unfolding s'
  proof (intro exI[of _ c'] conjI impI allI)
    show "lookup_charge (provider_id data) ?s' = Some c'" by (rule c'(1))
    show "c_confirmations c' = c_confirmations c \<or>
      (type = ''charge:pending'' \<and> c_confirmations c' = 0) \<or>
      (type = ''charge:confirmed'' \<and> \<not> c_credited c \<and>
       c_confirmations c' =
         (case reported_count data of Some n \<Rightarrow> n | None \<Rightarrow> c_confirm_threshold c))"
      by (rule c'(2))
  next
    assume "\<not> down env GetDepositCharges \<and> \<not> down env PatchDepositCharges \<and>
      type = ''charge:pending''"
    then show "c_confirmations c' = 0" using p by simp
  next
    fix n
    assume "\<not> down env GetDepositCharges \<and> \<not> down env PatchDepositCharges \<and>
      type = ''charge:confirmed'' \<and> \<not> c_credited c"
      and "reported_count data = Some n \<and> n < c_confirm_threshold c"
    then show "c_confirmations c' = n" using q by simp
  next
    assume a: "(\<forall>k. \<not> down env k) \<and> type = ''charge:confirmed'' \<and> \<not> c_credited c \<and>
      reported_count data = None \<and>
      (\<exists>d. creditAmount (confirmedPmt (payments_of data)) c = Some d \<and>
           0 \<le> balance_of s (c_user_id c) (c_asset c) + d)"
    then obtain d where "creditAmount (confirmedPmt (payments_of data)) c = Some d"
      "0 \<le> balance_of s (c_user_id c) (c_asset c) + d" by blast
    with a show "c_confirmations c' = c_confirm_threshold c" using r by blast
  qed
qed


theorem stored_confirmation_count_witness:
  "delivers demo_env (demo_request ''confirmed-2'') ''charge:confirmed'' (demo_data (Some 2)) \<and>
   lookup_charge (provider_id (demo_data (Some 2))) demo_store = Some demo_charge \<and>
   reported_count (demo_data (Some 2)) \<noteq> Some 0 \<and>
   (\<exists>c'. lookup_charge ''cb-1'' (snd (deposit_webhook_handler demo_env (demo_request ''confirmed-2'') demo_store)) = Some c' \<and>
         c_confirmations c' = 2)"
proof -
  have d: "delivers demo_env (demo_request ''confirmed-2'') ''charge:confirmed'' (demo_data (Some 2))"
    by (simp add: delivers_def signed_def signature_def rawBody_def demo_defs truthy_str_def)
  have l: "lookup_charge (provider_id (demo_data (Some 2))) demo_store = Some demo_charge"
    by (simp add: lookup_charge_def provider_id_def demo_defs)
  have r: "reported_count (demo_data (Some 2)) = Some 2"
    by (simp add: reported_count_def payments_of_def confirmedPmt_def demo_defs)
  then have r0: "reported_count (demo_data (Some 2)) \<noteq> Some 0" by simp
  have up: "\<not> down demo_env GetDepositCharges \<and> \<not> down demo_env PatchDepositCharges"
    by (simp add: demo_env_def)
  have thr: "\<not> c_credited demo_charge \<and> 2 < c_confirm_threshold demo_charge"
    by (simp add: demo_charge_def)
  have pid: "provider_id (demo_data (Some 2)) = ''cb-1''"
    by (simp add: provider_id_def demo_data_def)
  from stored_confirmation_count[OF d l r0] up thr r pid
  have "\<exists>c'. lookup_charge ''cb-1'' (snd (deposit_webhook_handler demo_env (demo_request ''confirmed-2'') demo_store)) = Some c' \<and>
         c_confirmations c' = 2"
    by auto
  with d l r0 show ?thesis by blast
qed

text \<open>
  C8 as stated fails: a stored count of 2 is overwritten with 0 by a late
  \<^verbatim>\<open>charge:pending\<close> and with 1 by a \<^verbatim>\<open>charge:confirmed\<close> that reports 1; and a
  \<^verbatim>\<open>charge:confirmed\<close> that omits the count stores 3, the threshold.
\<close>

theorem pending_resets_confirmation_count:
  "map c_confirmations (deposit_charges (run [(demo_env, demo_request ''confirmed-2'')] demo_store)) = [2] \<and>
   map c_confirmations (deposit_charges (run [(demo_env, demo_request ''confirmed-2''), (demo_env, demo_request ''pending'')] demo_store)) = [0] \<and>
   map c_confirmations (deposit_charges (run [(demo_env, demo_request ''confirmed-2''), (demo_env, demo_request ''confirmed-1'')] demo_store)) = [1] \<and>
   reported_count (demo_data None) = None \<and>
   map c_confirmations (deposit_charges (run [(demo_env, demo_request ''confirmed'')] demo_store)) = [3]"
  by (simp add: demo_defs webhook_defs reported_count_def payments_of_def)

subsection \<open>C9: an event for an unknown charge\<close>

text \<open>
  C9. A signed event with a type and data whose provider charge id matches no stored
  charge is answered with 200, and the store afterwards is the store before: no charge,
  balance, transaction or audit row is written, whichever store calls would fail.
\<close>

theorem unknown_charge_acknowledged:
  assumes "delivers env event type data"
    and "lookup_charge (case d_id data of None \<Rightarrow> ''undefined'' | Some i \<Rightarrow> i) s = None"
  shows "\<exists>r. deposit_webhook_handler env event s = (Inr r, s) \<and> statusCode r = 200"
  using assms(2) by (simp add: handler_delivers[OF assms(1)] process_event_eq)

theorem unknown_charge_acknowledged_witness:
  "delivers demo_env (demo_request ''unknown'') ''charge:confirmed'' \<lparr>d_id = Some ''cb-9'', d_code = None, d_payments = None\<rparr> \<and>
   lookup_charge ''cb-9'' demo_store = None \<and>
   (\<exists>r. deposit_webhook_handler demo_env (demo_request ''unknown'') demo_store = (Inr r, demo_store) \<and> statusCode r = 200)"
proof -
  have d: "delivers demo_env (demo_request ''unknown'') ''charge:confirmed'' \<lparr>d_id = Some ''cb-9'', d_code = None, d_payments = None\<rparr>"
    by (simp add: delivers_def signed_def signature_def rawBody_def demo_defs truthy_str_def)
  have l: "lookup_charge (case d_id \<lparr>d_id = Some ''cb-9'', d_code = None, d_payments = None\<rparr> of None \<Rightarrow> ''undefined'' | Some i \<Rightarrow> i) demo_store = None"
    by (simp add: lookup_charge_def demo_defs)
  from unknown_charge_acknowledged[OF d l] d l show ?thesis by simp
qed

subsection \<open>C10: session verification is total\<close>

lemma split_no_sep: "c \<notin> set s \<Longrightarrow> split c s = [s]"
  by (induction s) auto

lemma getSession_eq:
  "getSession env ck =
     (case parseCookie (case ck of None \<Rightarrow> [] | Some c \<Rightarrow> c) COOKIE_NAME of
        None \<Rightarrow> Inr PNull
      | Some token \<Rightarrow> (case getSession_try env token of Inl _ \<Rightarrow> Inr PNull | Inr p \<Rightarrow> Inr p))"
  by (simp add: getSession_def parseCookie_def Let_def split: option.splits)

lemma getSession_total: "\<exists>p. getSession env ck = Inr p"
  by (simp add: getSession_eq split: option.splits sum.splits)

lemma verifyPayload_total: "\<exists>p. verifyPayload env token secret = Inr p"
  by (simp add: verifyPayload_def split: sum.splits)

lemma auth_user_total: "\<exists>r. auth_user_handler env ck = Inr r \<and> (statusCode r = 200 \<or> r = unauth_user)"
  by (auto simp: auth_user_handler_def verifyPayload_def Let_def unauth_user_def
      split: option.splits sum.splits json_payload.splits)

lemma getSession_try_shapes:
  assumes "first_two (split CHR ''.'' token) = (data, sig)"
  shows "data = [] \<or> sig = [] \<Longrightarrow> getSession_try env token = Inr PNull"
    and "AUTH0_COOKIE_SECRET env = None \<Longrightarrow> data \<noteq> [] \<Longrightarrow> sig \<noteq> [] \<Longrightarrow> getSession_try env token = Inl TypeError"
    and "AUTH0_COOKIE_SECRET env = Some k \<Longrightarrow> data \<noteq> [] \<Longrightarrow> sig \<noteq> [] \<Longrightarrow>
         length sig \<noteq> length (hmac_sha256_base64url env k data) \<Longrightarrow> getSession_try env token = Inl RangeError"
    and "AUTH0_COOKIE_SECRET env = Some k \<Longrightarrow> data \<noteq> [] \<Longrightarrow> sig \<noteq> [] \<Longrightarrow>
         length sig = length (hmac_sha256_base64url env k data) \<Longrightarrow> sig \<noteq> hmac_sha256_base64url env k data \<Longrightarrow>
         getSession_try env token = Inr PNull"
    and "AUTH0_COOKIE_SECRET env = Some k \<Longrightarrow> data \<noteq> [] \<Longrightarrow> sig \<noteq> [] \<Longrightarrow>
         sig = hmac_sha256_base64url env k data \<Longrightarrow> parse_base64url_json env data = Inl e \<Longrightarrow>
         getSession_try env token = Inl e"
    and "AUTH0_COOKIE_SECRET env = Some k \<Longrightarrow> data \<noteq> [] \<Longrightarrow> sig \<noteq> [] \<Longrightarrow>
         sig = hmac_sha256_base64url env k data \<Longrightarrow> parse_base64url_json env data = Inr (PValue p) \<Longrightarrow>
         expired env p \<Longrightarrow> getSession_try env token = Inr PNull"
  using assms
  by (auto simp: getSession_try_def createHmac_base64url_def timingSafeEqual_def)

lemma null_session_auth_user:
  "getSession env ck = Inr PNull \<Longrightarrow> auth_user_handler env ck = Inr unauth_user"
  by (auto simp: getSession_eq auth_user_handler_def Let_def verifyPayload_def
      verifyPayload_try_def getSession_try_def truthy_str_def
      split: option.splits sum.splits json_payload.splits prod.splits if_splits bool.splits)

lemma getSession_null_shapes:
  assumes "parseCookie (cookieHeader ck) COOKIE_NAME = Some tok"
    and "first_two (split CHR ''.'' tok) = (data, sig)"
    and "data = [] \<or> sig = [] \<or> AUTH0_COOKIE_SECRET env = None \<or>
         (\<exists>k. AUTH0_COOKIE_SECRET env = Some k \<and> sig \<noteq> hmac_sha256_base64url env k data) \<or>
         (\<exists>e. parse_base64url_json env data = Inl e) \<or>
         parse_base64url_json env data = Inr PNull \<or>
         (\<exists>p. parse_base64url_json env data = Inr (PValue p) \<and> expired env p)"
  shows "getSession env ck = Inr PNull"
  using assms
  by (auto simp: getSession_eq cookieHeader_def getSession_try_def createHmac_base64url_def
      timingSafeEqual_def split: option.splits sum.splits json_payload.splits bool.splits)

lemma getSession_no_separator:
  assumes "parseCookie (cookieHeader ck) COOKIE_NAME = Some tok" and "CHR ''.'' \<notin> set tok"
  shows "getSession env ck = Inr PNull"
proof -
  have "first_two (split CHR ''.'' tok) = (tok, [])"
    using assms(2) by (simp add: split_no_sep first_two_def)
  from getSession_null_shapes[OF assms(1) this] show ?thesis by simp
qed

lemma requireAdmin_null:
  "getSession env (r_cookie event) = Inr PNull \<Longrightarrow> r_httpMethod event \<noteq> ''OPTIONS'' \<Longrightarrow>
   requireAdmin h env event s = (Inr unauth, s)"
  by (simp add: requireAdmin_def ret_def)

lemma create_null:
  "getSession env (r_cookie event) = Inr PNull \<Longrightarrow> r_httpMethod event = ''POST'' \<Longrightarrow>
   ledger_transaction_create_handler env event s = (Inr unauth, s)"
  by (simp add: ledger_transaction_create_handler_def ret_def)

text \<open>
  C10. \<^verbatim>\<open>getSession\<close>, \<^verbatim>\<open>verifyPayload\<close> and the handler of \<^verbatim>\<open>auth-user.js\<close> never throw:
  for every environment, cookie header and token they return a value, a payload or
  \<^verbatim>\<open>null\<close>. \<^verbatim>\<open>getSession\<close> returns \<^verbatim>\<open>null\<close> when the header has no \<^verbatim>\<open>apex_session\<close> cookie,
  when the token has no \<^verbatim>\<open>.\<close> separator or an empty piece, when the secret is missing,
  when the signature is not the expected one (of any length: the exception of the
  comparison is caught), when the payload does not decode to JSON or decodes to \<^verbatim>\<open>null\<close>,
  and when the token is expired. Whenever \<^verbatim>\<open>getSession\<close> returns \<^verbatim>\<open>null\<close>, \<^verbatim>\<open>auth-user\<close>, the
  admin guard and \<^verbatim>\<open>ledger-transaction-create\<close> answer with 401 and leave the store as it
  is.
\<close>

theorem session_verification_total:
  "(\<exists>p. getSession env ck = Inr p) \<and>
   (\<exists>p. verifyPayload env token secret = Inr p) \<and>
   (\<exists>r. auth_user_handler env ck = Inr r \<and> (statusCode r = 200 \<or> r = unauth_user)) \<and>
   (parseCookie (cookieHeader ck) COOKIE_NAME = None \<longrightarrow> getSession env ck = Inr PNull) \<and>
   (\<forall>tok. parseCookie (cookieHeader ck) COOKIE_NAME = Some tok \<and> CHR ''.'' \<notin> set tok \<longrightarrow>
      getSession env ck = Inr PNull) \<and>
   (\<forall>tok data sig.
      parseCookie (cookieHeader ck) COOKIE_NAME = Some tok \<and>
      first_two (split CHR ''.'' tok) = (data, sig) \<and>
      (data = [] \<or> sig = [] \<or> AUTH0_COOKIE_SECRET env = None \<or>
       (\<exists>k. AUTH0_COOKIE_SECRET env = Some k \<and> sig \<noteq> hmac_sha256_base64url env k data) \<or>
       (\<exists>e. parse_base64url_json env data = Inl e) \<or>
       parse_base64url_json env data = Inr PNull \<or>
       (\<exists>p. parse_base64url_json env data = Inr (PValue p) \<and> expired env p)) \<longrightarrow>
      getSession env ck = Inr PNull) \<and>
   (getSession env ck = Inr PNull \<longrightarrow> auth_user_handler env ck = Inr unauth_user) \<and>
   (\<forall>h (event :: 'b api_request) s.
      getSession env (r_cookie event) = Inr PNull \<and> r_httpMethod event \<noteq> ''OPTIONS'' \<longrightarrow>
      requireAdmin h env event s = (Inr unauth, s)) \<and>
   (\<forall>event s.
      getSession env (r_cookie event) = Inr PNull \<and> r_httpMethod event = ''POST'' \<longrightarrow>
      ledger_transaction_create_handler env event s = (Inr unauth, s))"
proof (intro conjI allI impI)
  show "\<exists>p. getSession env ck = Inr p" by (rule getSession_total)
  show "\<exists>p. verifyPayload env token secret = Inr p" by (rule verifyPayload_total)
  show "\<exists>r. auth_user_handler env ck = Inr r \<and> (statusCode r = 200 \<or> r = unauth_user)"
    by (rule auth_user_total)
next
  assume "parseCookie (cookieHeader ck) COOKIE_NAME = None"
  then show "getSession env ck = Inr PNull" by (simp add: getSession_eq cookieHeader_def)
next
  fix tok
  assume "parseCookie (cookieHeader ck) COOKIE_NAME = Some tok \<and> CHR ''.'' \<notin> set tok"
  then show "getSession env ck = Inr PNull" using getSession_no_separator by blast
next
  fix tok data sig
  assume "parseCookie (cookieHeader ck) COOKIE_NAME = Some tok \<and>
      first_two (split CHR ''.'' tok) = (data, sig) \<and>
      (data = [] \<or> sig = [] \<or> AUTH0_COOKIE_SECRET env = None \<or>
       (\<exists>k. AUTH0_COOKIE_SECRET env = Some k \<and> sig \<noteq> hmac_sha256_base64url env k data) \<or>
       (\<exists>e. parse_base64url_json env data = Inl e) \<or>
       parse_base64url_json env data = Inr PNull \<or>
       (\<exists>p. parse_base64url_json env data = Inr (PValue p) \<and> expired env p))"
  then show "getSession env ck = Inr PNull" using getSession_null_shapes by blast
next
  assume "getSession env ck = Inr PNull"
  then show "auth_user_handler env ck = Inr unauth_user" by (rule null_session_auth_user)
next
  fix h and event :: "'b api_request" and s
  assume "getSession env (r_cookie event) = Inr PNull \<and> r_httpMethod event \<noteq> ''OPTIONS''"
  then show "requireAdmin h env event s = (Inr unauth, s)" by (simp add: requireAdmin_null)
next
  fix event :: "create_body api_request" and s
  assume "getSession env (r_cookie event) = Inr PNull \<and> r_httpMethod event = ''POST''"
  then show "ledger_transaction_create_handler env event s = (Inr unauth, s)"
    by (simp add: create_null)
qed

lemma demo_cookie: "parseCookie ''theme=dark; apex_session=admin.x'' COOKIE_NAME = Some ''admin.x''"
  by (simp add: parseCookie_def COOKIE_NAME_def trim_def is_space_def startsWith_def)

theorem session_verification_total_witness:
  "parseCookie (cookieHeader (Some ''theme=dark; apex_session=admin.x'')) COOKIE_NAME = Some ''admin.x'' \<and>
   first_two (split CHR ''.'' ''admin.x'') = (''admin'', ''x'') \<and>
   AUTH0_COOKIE_SECRET demo_api_env = Some ''cookie-secret'' \<and>
   length ''x'' \<noteq> length (hmac_sha256_base64url demo_api_env ''cookie-secret'' ''admin'') \<and>
   getSession demo_api_env (Some ''theme=dark; apex_session=admin.x'') = Inr PNull \<and>
   auth_user_handler demo_api_env (Some ''theme=dark; apex_session=admin.x'') = Inr unauth_user"
proof -
  let ?ck = "Some ''theme=dark; apex_session=admin.x''"
  have a: "parseCookie (cookieHeader ?ck) COOKIE_NAME = Some ''admin.x''"
    by (simp add: cookieHeader_def demo_cookie)
  have b: "first_two (split CHR ''.'' ''admin.x'') = (''admin'', ''x'')"
    by (simp add: first_two_def)
  have c: "AUTH0_COOKIE_SECRET demo_api_env = Some ''cookie-secret''"
    by (simp add: demo_api_env_def)
  have d: "length ''x'' \<noteq> length (hmac_sha256_base64url demo_api_env ''cookie-secret'' ''admin'')"
    by (simp add: demo_api_env_def)
  have e: "''x'' \<noteq> hmac_sha256_base64url demo_api_env ''cookie-secret'' ''admin''"
    by (simp add: demo_api_env_def)
  from session_verification_total[of demo_api_env ?ck] a b c e
  have g: "getSession demo_api_env ?ck = Inr PNull" by blast
  with session_verification_total[of demo_api_env ?ck]
  have "auth_user_handler demo_api_env ?ck = Inr unauth_user" by blast
  with a b c d g show ?thesis by blast
qed

subsection \<open>C3: the refund of a failed or cancelled withdrawal\<close>

lemma demo_getSession: "getSession demo_api_env (Some ''apex_session=admin.mac-admin'') = Inr (PValue demo_session)"
  by (simp add: getSession_def getSession_try_def parseCookie_def COOKIE_NAME_def trim_def is_space_def
      startsWith_def first_two_def createHmac_base64url_def timingSafeEqual_def demo_api_env_def
      expired_def truthy_num_def demo_session_def Let_def)

lemma requireAdmin_admin:
  "getSession env (r_cookie event) = Inr (PValue session) \<Longrightarrow> s_isAdmin session \<Longrightarrow>
   r_httpMethod event \<noteq> ''OPTIONS'' \<Longrightarrow>
   requireAdmin h env event s =
     (case h env event session s of
        (Inl err, s') \<Rightarrow> (Inl TypeError, s')
      | (Inr r, s') \<Rightarrow> (Inr r, s'))"
  by (simp add: requireAdmin_def tryCatch_def throw_def split: prod.splits sum.splits)

lemma find_patch_tx:
  assumes "find (\<lambda>r. t_id r = tid) xs = Some tx"
    and "\<And>r. t_id (f r) = t_id r"
  shows "find (\<lambda>r. t_id r = tid) (map (\<lambda>r. if t_id r = tid then f r else r) xs) = Some (f tx)"
  using assms(1) by (induction xs) (auto simp: assms(2))

lemma rpc_balances:
  "balances (snd (supabase_rpc_upsert_balance dn u a (Some d) s)) =
     (if \<not> dn RpcUpsertBalance \<and> 0 \<le> balance_of s u a + d
      then (balances s)((u, a) \<mapsto> balance_of s u a + d) else balances s)"
  by (simp add: supabase_rpc_upsert_balance_def upsert_balance_def balance_of_def Let_def)

lemma rpc_rest:
  "transactions (snd (supabase_rpc_upsert_balance dn u a d s)) = transactions s \<and>
   users (snd (supabase_rpc_upsert_balance dn u a d s)) = users s \<and>
   deposit_charges (snd (supabase_rpc_upsert_balance dn u a d s)) = deposit_charges s \<and>
   audit_log (snd (supabase_rpc_upsert_balance dn u a d s)) = audit_log s"
  by (simp add: supabase_rpc_upsert_balance_def upsert_balance_def Let_def split: option.splits)

lemma refundDue_same: "t_status tx = st \<Longrightarrow> \<not> refundDue tx st"
  by (auto simp: refundDue_def)

lemma update_inner_eq:
  assumes "r_httpMethod event = ''POST''" "r_json_body event = Json b"
    and "b_transactionId b = Some tid" "tid \<noteq> 0"
    and "b_status b = Some st" "st \<in> set ALLOWED_STATUSES"
    and "lookup_tx tid s = Some tx" "\<not> api_down env GetTransactions" "t_status tx \<noteq> st"
  shows "(\<exists>r. fst (admin_transaction_update_inner env event session s) = Inr r \<or>
              fst (admin_transaction_update_inner env event session s) = Inl StoreFailure) \<and>
         balances (snd (admin_transaction_update_inner env event session s)) =
           (if refundDue tx st \<and> \<not> api_down env RpcUpsertBalance \<and>
               0 \<le> balance_of s (t_user_id tx) (t_asset tx) + refundDelta tx
            then (balances s)((t_user_id tx, t_asset tx) \<mapsto>
                    balance_of s (t_user_id tx) (t_asset tx) + refundDelta tx)
            else balances s) \<and>
         (\<not> api_down env PatchTransactions \<longrightarrow>
            lookup_tx tid (snd (admin_transaction_update_inner env event session s)) =
              Some (tx\<lparr>t_status := st, t_notes := appendNotes (api_now env) tx (b_notes b),
                       t_updated_at := api_now env\<rparr>))"
proof -
  let ?rpc = "supabase_rpc_upsert_balance (api_down env) (t_user_id tx) (t_asset tx)
                (Some (refundDelta tx)) s"
  have g: "supabase_get_transactions (api_down env) tid s =
             (Inr (filter (\<lambda>r. t_id r = tid) (transactions s)), s)"
    using assms(8) by (simp add: supabase_get_transactions_def)
  obtain rest where f: "filter (\<lambda>r. t_id r = tid) (transactions s) = tx # rest"
    using assms(7)
      case_filter_find[where P="\<lambda>r. t_id r = tid" and xs="transactions s" and a=None and f=Some]
    by (cases "filter (\<lambda>r. t_id r = tid) (transactions s)") (auto simp: lookup_tx_def)
  have ftx: "find (\<lambda>r. t_id r = tid) (transactions (snd ?rpc)) = Some tx"
    "find (\<lambda>r. t_id r = tid) (transactions s) = Some tx"
    using assms(7) by (simp_all add: rpc_rest lookup_tx_def)
  obtain e1 s1 where r: "?rpc = (e1, s1)" by (cases ?rpc)
  then have s1: "snd ?rpc = s1" by simp
  show ?thesis
    using assms(1-6,9) ftx rpc_balances[of "api_down env" "t_user_id tx" "t_asset tx" "refundDelta tx" s]
    unfolding s1
    by (auto simp: admin_transaction_update_inner_def truthy_id_def andThen_def g f Let_def
        tryCatch_def ret_def lookup_tx_def supabase_patch_transactions_def r
        supabase_get_users_by_id_def auditLog_def find_patch_tx
        split: prod.splits sum.splits)
qed

lemma update_inner_same:
  assumes "r_httpMethod event = ''POST''" "r_json_body event = Json b"
    and "b_transactionId b = Some tid" "tid \<noteq> 0"
    and "b_status b = Some st" "st \<in> set ALLOWED_STATUSES"
    and "lookup_tx tid s = Some tx" "\<not> api_down env GetTransactions" "t_status tx = st"
  shows "admin_transaction_update_inner env event session s =
           (Inr (badReq (''Transaction is already '' @ st)), s)"
proof -
  have g: "supabase_get_transactions (api_down env) tid s =
             (Inr (filter (\<lambda>r. t_id r = tid) (transactions s)), s)"
    using assms(8) by (simp add: supabase_get_transactions_def)
  obtain rest where f: "filter (\<lambda>r. t_id r = tid) (transactions s) = tx # rest"
    using assms(7)
      case_filter_find[where P="\<lambda>r. t_id r = tid" and xs="transactions s" and a=None and f=Some]
    by (cases "filter (\<lambda>r. t_id r = tid) (transactions s)") (auto simp: lookup_tx_def)
  show ?thesis
    using assms(1-6,9)
    by (simp add: admin_transaction_update_inner_def truthy_id_def andThen_def g f Let_def ret_def)
qed

text \<open>
  C3, as the code has it. An administrator asks for an allowed status on an existing
  transaction. The balance of the transaction's user and asset grows by exactly amount
  plus fee when the transaction is a withdrawal, the new status is \<^verbatim>\<open>failed\<close> or
  \<^verbatim>\<open>cancelled\<close>, the previous status was neither of the two, and the balance primitive
  accepts the delta; in every other case, in particular when the previous status was
  already \<^verbatim>\<open>failed\<close> or \<^verbatim>\<open>cancelled\<close>, no balance changes. A previous status \<^verbatim>\<open>completed\<close> is
  refunded like \<^verbatim>\<open>pending\<close> or \<^verbatim>\<open>processing\<close>. A request for the status the transaction
  already has, such as a repeated cancel, is answered with 400 and leaves the whole
  store as it is. For a new status, whether or not the refund went through, the status
  is written when the patch itself succeeds.
\<close>

theorem status_transition_refund:
  assumes "getSession env (r_cookie event) = Inr (PValue session)" and "s_isAdmin session"
    and "r_httpMethod event = ''POST''" and "r_json_body event = Json b"
    and "b_transactionId b = Some tid" and "tid \<noteq> 0"
    and "b_status b = Some st" and "st \<in> set ALLOWED_STATUSES"
    and "lookup_tx tid s = Some tx" and "\<not> api_down env GetTransactions"
  shows "balances (snd (admin_transaction_update_handler env event s)) =
           (if refundDue tx st \<and> \<not> api_down env RpcUpsertBalance \<and>
               0 \<le> balance_of s (t_user_id tx) (t_asset tx) + refundDelta tx
            then (balances s)((t_user_id tx, t_asset tx) \<mapsto>
                    balance_of s (t_user_id tx) (t_asset tx) + refundDelta tx)
            else balances s) \<and>
         (t_status tx = st \<longrightarrow>
            admin_transaction_update_handler env event s =
              (Inr (badReq (''Transaction is already '' @ st)), s)) \<and>
         (t_status tx \<noteq> st \<and> \<not> api_down env PatchTransactions \<longrightarrow>
            lookup_tx tid (snd (admin_transaction_update_handler env event s)) =
              Some (tx\<lparr>t_status := st, t_notes := appendNotes (api_now env) tx (b_notes b),
                       t_updated_at := api_now env\<rparr>))"
proof (cases "t_status tx = st")
  case True
  have "admin_transaction_update_handler env event s =
          (Inr (badReq (''Transaction is already '' @ st)), s)"
    using assms(1-3) update_inner_same[OF assms(3-10) True, of session]
    by (simp add: admin_transaction_update_handler_def requireAdmin_admin)
  with True show ?thesis by (simp add: refundDue_same)
next
  case False
  have "snd (admin_transaction_update_handler env event s) =
        snd (admin_transaction_update_inner env event session s)"
    using assms(1-3)
    by (simp add: admin_transaction_update_handler_def requireAdmin_admin
        split: prod.splits sum.splits)
  with update_inner_eq[OF assms(3-10) False, of session] False show ?thesis by simp
qed

text \<open>
  The scenario of the specification: a pending withdrawal of 1.0 ETH with fee 0.001 ETH
  is cancelled; the balance grows from 5 to 6.001 ETH and the status is written.
  Repeating the cancel on the cancelled withdrawal is answered with 400 and changes
  nothing.
\<close>

theorem status_transition_refund_witness:
  "getSession demo_api_env (r_cookie (demo_update ''cancelled'')) = Inr (PValue demo_session) \<and>
   s_isAdmin demo_session \<and>
   lookup_tx 1 (demo_ledger ''pending'' 100000000) = Some (demo_withdrawal ''pending'' 100000000) \<and>
   balances (demo_ledger ''pending'' 100000000) (1, ''ETH'') = Some 500000000 \<and>
   balances (snd (admin_transaction_update_handler demo_api_env (demo_update ''cancelled'')
                    (demo_ledger ''pending'' 100000000))) (1, ''ETH'') = Some 600100000 \<and>
   lookup_tx 1 (snd (admin_transaction_update_handler demo_api_env (demo_update ''cancelled'')
                    (demo_ledger ''pending'' 100000000))) =
     Some ((demo_withdrawal ''pending'' 100000000)\<lparr>t_status := ''cancelled'', t_updated_at := ''t2''\<rparr>) \<and>
   lookup_tx 1 (demo_ledger ''cancelled'' 100000000) = Some (demo_withdrawal ''cancelled'' 100000000) \<and>
   admin_transaction_update_handler demo_api_env (demo_update ''cancelled'')
       (demo_ledger ''cancelled'' 100000000) =
     (Inr (badReq ''Transaction is already cancelled''), demo_ledger ''cancelled'' 100000000)"
proof -
  let ?s = "demo_ledger ''pending'' 100000000"
  let ?tx = "demo_withdrawal ''pending'' 100000000"
  let ?s2 = "demo_ledger ''cancelled'' 100000000"
  let ?tx2 = "demo_withdrawal ''cancelled'' 100000000"
  have h1: "getSession demo_api_env (r_cookie (demo_update ''cancelled'')) = Inr (PValue demo_session)"
    by (simp add: demo_update_def demo_getSession)
  have h2: "s_isAdmin demo_session" by (simp add: demo_session_def)
  have h3: "r_httpMethod (demo_update ''cancelled'') = ''POST''" by (simp add: demo_update_def)
  have h4: "r_json_body (demo_update ''cancelled'') =
              Json \<lparr>b_transactionId = Some 1, b_status = Some ''cancelled'', b_notes = None\<rparr>"
    by (simp add: demo_update_def)
  have h7: "''cancelled'' \<in> set ALLOWED_STATUSES" by (simp add: ALLOWED_STATUSES_def)
  have h8: "lookup_tx 1 ?s = Some ?tx"
    by (simp add: lookup_tx_def demo_ledger_def demo_withdrawal_def)
  have h8': "lookup_tx 1 ?s2 = Some ?tx2"
    by (simp add: lookup_tx_def demo_ledger_def demo_withdrawal_def)
  have h9: "\<not> api_down demo_api_env GetTransactions" by (simp add: demo_api_env_def)
  have b0: "balances ?s (1, ''ETH'') = Some 500000000" by (simp add: demo_ledger_def)
  have facts: "refundDue ?tx ''cancelled''" "refundDelta ?tx = 100100000"
    "balance_of ?s (t_user_id ?tx) (t_asset ?tx) = 500000000"
    "t_user_id ?tx = 1" "t_asset ?tx = ''ETH''" "t_status ?tx \<noteq> ''cancelled''"
    "\<not> api_down demo_api_env RpcUpsertBalance" "\<not> api_down demo_api_env PatchTransactions"
    "api_now demo_api_env = ''t2''"
    "appendNotes ''t2'' ?tx None = t_notes ?tx"
    by (simp_all add: refundDue_def refundDelta_def balance_of_def truthy_num_def truthy_str_def
        appendNotes_def demo_withdrawal_def demo_ledger_def demo_api_env_def)
  have same: "t_status ?tx2 = ''cancelled''" by (simp add: demo_withdrawal_def)
  have h5: "b_transactionId \<lparr>b_transactionId = Some 1, b_status = Some ''cancelled'', b_notes = None\<rparr> = Some 1"
    and h6: "(1::nat) \<noteq> 0"
    and h6': "b_status \<lparr>b_transactionId = Some 1, b_status = Some ''cancelled'', b_notes = None\<rparr> = Some ''cancelled''"
    by simp_all
  from status_transition_refund[OF h1 h2 h3 h4 h5 h6 h6' h7 h8 h9] facts
  have "balances (snd (admin_transaction_update_handler demo_api_env (demo_update ''cancelled'') ?s))
          (1, ''ETH'') = Some 600100000"
    and "lookup_tx 1 (snd (admin_transaction_update_handler demo_api_env (demo_update ''cancelled'') ?s)) =
         Some (?tx\<lparr>t_status := ''cancelled'', t_updated_at := ''t2''\<rparr>)"
    by simp_all
  moreover from status_transition_refund[OF h1 h2 h3 h4 h5 h6 h6' h7 h8' h9] same
  have "admin_transaction_update_handler demo_api_env (demo_update ''cancelled'') ?s2 =
          (Inr (badReq ''Transaction is already cancelled''), ?s2)"
    by simp
  ultimately show ?thesis using h1 h2 h8 h8' b0 by simp
qed

lemma demo_update_handler:
  "admin_transaction_update_handler demo_api_env (demo_update st) s =
     (case admin_transaction_update_inner demo_api_env (demo_update st) demo_session s of
        (Inl err, s') \<Rightarrow> (Inl TypeError, s')
      | (Inr r, s') \<Rightarrow> (Inr r, s'))"
proof -
  have "getSession demo_api_env (r_cookie (demo_update st)) = Inr (PValue demo_session)"
    by (simp add: demo_update_def demo_getSession)
  moreover have "s_isAdmin demo_session" by (simp add: demo_session_def)
  moreover have "r_httpMethod (demo_update st) \<noteq> ''OPTIONS''" by (simp add: demo_update_def)
  ultimately show ?thesis
    unfolding admin_transaction_update_handler_def by (rule requireAdmin_admin)
qed

lemmas inner_defs =
  admin_transaction_update_inner_def
  supabase_get_transactions_def supabase_patch_transactions_def supabase_get_users_by_id_def
  supabase_rpc_upsert_balance_def upsert_balance_def auditLog_def
  refundDue_def refundDelta_def appendNotes_def ALLOWED_STATUSES_def
  truthy_str_def truthy_num_def truthy_id_def andThen_def tryCatch_def ret_def throw_def Let_def

text \<open>
  C3 as stated fails where it says that a transition of a \<^verbatim>\<open>completed\<close> transaction
  performs no refund: a completed withdrawal moved to \<^verbatim>\<open>failed\<close> is refunded.
\<close>

theorem completed_withdrawal_is_refunded:
  "t_status (demo_withdrawal ''completed'' 100000000) = ''completed'' \<and>
   lookup_tx 1 (demo_ledger ''completed'' 100000000) = Some (demo_withdrawal ''completed'' 100000000) \<and>
   balances (demo_ledger ''completed'' 100000000) (1, ''ETH'') = Some 500000000 \<and>
   fst (admin_transaction_update_handler demo_api_env (demo_update ''failed'')
          (demo_ledger ''completed'' 100000000)) =
     Inr \<lparr>statusCode = 200, body = JsonUpdated ''completed'' ''failed'' True\<rparr> \<and>
   balances (snd (admin_transaction_update_handler demo_api_env (demo_update ''failed'')
                    (demo_ledger ''completed'' 100000000))) (1, ''ETH'') = Some 600100000"
  unfolding demo_update_handler
  by (simp add: inner_defs demo_api_env_def demo_withdrawal_def
      demo_ledger_def demo_update_def lookup_tx_def)

subsection \<open>C7: the balance primitive and its call sites\<close>





text \<open>
  What the refund does with a refusal of the primitive: the \<^verbatim>\<open>catch\<close> around the call
  logs it and the handler goes on to write the status and to answer 200.
\<close>

lemma refund_refused_response:
  assumes "refund_refused env event tid st tx s"
  shows "\<exists>b. r_json_body event = Json b \<and>
           fst (admin_transaction_update_handler env event s) =
             Inr \<lparr>statusCode = 200, body = JsonUpdated (t_status tx) st True\<rparr> \<and>
           balances (snd (admin_transaction_update_handler env event s)) = balances s \<and>
           lookup_tx tid (snd (admin_transaction_update_handler env event s)) =
             Some (tx\<lparr>t_status := st, t_notes := appendNotes (api_now env) tx (b_notes b),
                      t_updated_at := api_now env\<rparr>)"
proof -
  from assms obtain session b where
    h: "r_httpMethod event = ''POST''" "getSession env (r_cookie event) = Inr (PValue session)"
       "s_isAdmin session" "r_json_body event = Json b"
       "b_transactionId b = Some tid" "tid \<noteq> 0" "b_status b = Some st"
       "st \<in> set ALLOWED_STATUSES" "lookup_tx tid s = Some tx" "t_status tx \<noteq> st"
       "refundDue tx st" "\<not> api_down env GetTransactions" "\<not> api_down env RpcUpsertBalance"
       "\<not> api_down env PatchTransactions" "\<not> api_down env GetUsers"
       "balance_of s (t_user_id tx) (t_asset tx) + refundDelta tx < 0"
    by (auto simp: refund_refused_def split: sum.splits json_payload.splits parsed_body.splits)
  have g: "supabase_get_transactions (api_down env) tid s =
             (Inr (filter (\<lambda>r. t_id r = tid) (transactions s)), s)"
    using h(12) by (simp add: supabase_get_transactions_def)
  obtain rest where f: "filter (\<lambda>r. t_id r = tid) (transactions s) = tx # rest"
    using h(9)
      case_filter_find[where P="\<lambda>r. t_id r = tid" and xs="transactions s" and a=None and f=Some]
    by (cases "filter (\<lambda>r. t_id r = tid) (transactions s)") (auto simp: lookup_tx_def)
  have rpc: "supabase_rpc_upsert_balance (api_down env) (t_user_id tx) (t_asset tx)
               (Some (refundDelta tx)) s = (Inl InsufficientBalance, s)"
    using h(13,16)
    by (simp add: supabase_rpc_upsert_balance_def upsert_balance_def balance_of_def Let_def)
  have wd: "t_type tx = ''withdrawal'' \<and> (st = ''failed'' \<or> st = ''cancelled'')"
    using h(11) by (simp add: refundDue_def)
  have inner: "fst (admin_transaction_update_inner env event session s) =
             Inr \<lparr>statusCode = 200, body = JsonUpdated (t_status tx) st True\<rparr> \<and>
           balances (snd (admin_transaction_update_inner env event session s)) = balances s \<and>
           lookup_tx tid (snd (admin_transaction_update_inner env event session s)) =
             Some (tx\<lparr>t_status := st, t_notes := appendNotes (api_now env) tx (b_notes b),
                      t_updated_at := api_now env\<rparr>)"
    using h(1,4-11,14,15) wd
    by (auto simp: admin_transaction_update_inner_def truthy_id_def andThen_def g f Let_def
        tryCatch_def ret_def lookup_tx_def supabase_patch_transactions_def rpc
        supabase_get_users_by_id_def auditLog_def find_patch_tx)
  have "admin_transaction_update_handler env event s =
          (case admin_transaction_update_inner env event session s of
             (Inl err, s') \<Rightarrow> (Inl TypeError, s')
           | (Inr r, s') \<Rightarrow> (Inr r, s'))"
    using h(1-3) by (simp add: admin_transaction_update_handler_def requireAdmin_admin)
  with inner h(4) show ?thesis
    by (auto split: prod.splits sum.splits)
qed













































end
